theory Spec2Isabelle
  imports Main
begin

section \<open>JavaScript values used by the ISO manager\<close>

text \<open>
  Strings are lists of characters. The helpers below are the JavaScript string built-ins
  the program calls, restricted to what the program feeds them.
\<close>

definition is_digit :: "char \<Rightarrow> bool" where
  "is_digit c = (c \<in> set ''0123456789'')"

definition is_hex :: "char \<Rightarrow> bool" where
  "is_hex c = (c \<in> set ''0123456789abcdefABCDEF'')"

definition is_space :: "char \<Rightarrow> bool" where
  \<comment> \<open>the ASCII members of the white space and line terminator classes\<close>
  "is_space c = (c \<in> set [CHR '' '', CHR 0x09, CHR 0x0A, CHR 0x0B, CHR 0x0C, CHR 0x0D])"

definition lower_char :: "char \<Rightarrow> char" where
  "lower_char c =
     (case map_of (zip ''ABCDEFGHIJKLMNOPQRSTUVWXYZ'' ''abcdefghijklmnopqrstuvwxyz'') c of
        None \<Rightarrow> c | Some d \<Rightarrow> d)"

definition toLowerCase :: "string \<Rightarrow> string" where
  \<comment> \<open>\<open>String.prototype.toLowerCase\<close> on ASCII text\<close>
  "toLowerCase s = map lower_char s"

definition trim :: "string \<Rightarrow> string" where
  \<comment> \<open>\<open>String.prototype.trim\<close>\<close>
  "trim s = rev (dropWhile is_space (rev (dropWhile is_space s)))"

fun split_on :: "char \<Rightarrow> string \<Rightarrow> string list" where
  \<comment> \<open>\<open>s.split(sep)\<close> for a one-character separator: the empty string gives one empty piece\<close>
  "split_on sep [] = [[]]"
| "split_on sep (c # cs) =
     (if c = sep then [] # split_on sep cs
      else (case split_on sep cs of
              [] \<Rightarrow> [[c]]
            | p # ps \<Rightarrow> (c # p) # ps))"

fun isPrefixOf :: "string \<Rightarrow> string \<Rightarrow> bool" where
  \<comment> \<open>\<open>s.startsWith(p)\<close>, arguments in the order prefix, string\<close>
  "isPrefixOf [] s = True"
| "isPrefixOf (p # ps) [] = False"
| "isPrefixOf (p # ps) (c # cs) = (p = c \<and> isPrefixOf ps cs)"

definition endsWith :: "string \<Rightarrow> string \<Rightarrow> bool" where
  \<comment> \<open>\<open>s.endsWith(suffix)\<close>\<close>
  "endsWith s suffix = isPrefixOf (rev suffix) (rev s)"

fun includes_str :: "string \<Rightarrow> string \<Rightarrow> bool" where
  \<comment> \<open>\<open>s.includes(sub)\<close>\<close>
  "includes_str [] sub = (sub = [])"
| "includes_str (c # cs) sub = (isPrefixOf sub (c # cs) \<or> includes_str cs sub)"

subsection \<open>Numbers\<close>

text \<open>
  A number is a double. A finite one is held as a mantissa and a binary exponent,
  \<open>Dbl m e\<close> for \<open>m * 2^e\<close>, and one value may have several such pairs; the two zeros are
  not told apart, which no comparison does either.
\<close>

datatype jsnum = NaN | Dbl int int | PosInf | NegInf

definition Num :: "nat \<Rightarrow> jsnum" where
  \<comment> \<open>the number that is the given natural number, for numbers that a double holds exactly\<close>
  "Num n = Dbl (int n) 0"

definition scaled :: "int \<Rightarrow> int \<Rightarrow> int \<Rightarrow> int" where
  \<comment> \<open>the mantissa of \<open>m * 2^e\<close> over the exponent \<open>base\<close>, which is at most \<open>e\<close>\<close>
  "scaled m e base = m * 2 ^ nat (e - base)"

fun js_lt :: "jsnum \<Rightarrow> jsnum \<Rightarrow> bool" where
  \<comment> \<open>\<open>a < b\<close>: false as soon as one side is \<open>NaN\<close>\<close>
  "js_lt (Dbl m1 e1) (Dbl m2 e2) = (scaled m1 e1 (min e1 e2) < scaled m2 e2 (min e1 e2))"
| "js_lt (Dbl m e) PosInf = True"
| "js_lt NegInf (Dbl m e) = True"
| "js_lt NegInf PosInf = True"
| "js_lt _ _ = False"

definition js_gt :: "jsnum \<Rightarrow> jsnum \<Rightarrow> bool" where
  \<comment> \<open>\<open>a > b\<close>\<close>
  "js_gt a b = js_lt b a"

text \<open>
  Rounding a positive rational \<open>num / den\<close> to the nearest double, ties to the even
  mantissa: the mantissa has 53 bits, the exponent of its last bit is at least -1074, and
  a result of \<open>2^1024\<close> or more is \<open>Infinity\<close>.
\<close>

function bits :: "nat \<Rightarrow> nat" where
  \<comment> \<open>the length of the binary numeral\<close>
  "bits n = (if n = 0 then 0 else 1 + bits (n div 2))"
  by pat_completeness auto
termination
  by (relation "measure id") auto

declare bits.simps [simp del]

definition ilog2 :: "nat \<Rightarrow> nat \<Rightarrow> int" where
  \<comment> \<open>the integer part of the binary logarithm of \<open>num / den\<close>, both positive\<close>
  "ilog2 num den =
     (let c = int (bits num) - int (bits den) in
      if (if 0 \<le> c then den * 2 ^ nat c \<le> num else den \<le> num * 2 ^ nat (- c))
      then c else c - 1)"

definition round_half_even :: "nat \<Rightarrow> nat \<Rightarrow> nat" where
  \<comment> \<open>\<open>num / den\<close> rounded to the nearest integer, a tie to the even one\<close>
  "round_half_even num den =
     (let f = num div den; r = num mod den in
      if 2 * r < den then f
      else if den < 2 * r then f + 1
      else if even f then f else f + 1)"

definition to_double :: "nat \<Rightarrow> nat \<Rightarrow> jsnum" where
  \<comment> \<open>the double nearest to \<open>num / den\<close>, for a positive \<open>den\<close>; integers up to \<open>2^53\<close> are
      doubles themselves\<close>
  "to_double num den =
     (if num = 0 then Dbl 0 0
      else if den dvd num \<and> num div den \<le> 9007199254740992 then Dbl (int (num div den)) 0
      else (let p = max (ilog2 num den - 52) (- 1074);
                q = (if 0 \<le> p then round_half_even num (den * 2 ^ nat p)
                     else round_half_even (num * 2 ^ nat (- p)) den)
            in if 971 < p \<or> (p = 971 \<and> 9007199254740992 \<le> q) then PosInf else Dbl (int q) p))"

definition negate :: "jsnum \<Rightarrow> jsnum" where
  "negate x = (case x of NaN \<Rightarrow> NaN | Dbl m e \<Rightarrow> Dbl (- m) e | PosInf \<Rightarrow> NegInf
               | NegInf \<Rightarrow> PosInf)"

subsection \<open>\<open>Number\<close> of a string\<close>

text \<open>
  \<open>Number(s)\<close> on ASCII strings, after the grammar of numeric string literals: white space
  around the literal is dropped; the empty string is 0; a literal is a binary, octal or
  hexadecimal integer with its prefix, or an optional sign before \<open>Infinity\<close> or a decimal
  literal with an optional fraction and an optional exponent; everything else is \<open>NaN\<close>.
  The value is rounded to the nearest double.
\<close>

definition digit_val :: "char \<Rightarrow> nat" where
  \<comment> \<open>the value of a digit of any radix up to sixteen\<close>
  "digit_val c =
     (case map_of (zip ''0123456789abcdefABCDEF''
                       [0, 1, 2, 3, 4, 5, 6, 7, 8, 9, 10, 11, 12, 13, 14, 15,
                        10, 11, 12, 13, 14, 15]) c of
        None \<Rightarrow> 0 | Some d \<Rightarrow> d)"

definition radix_value :: "nat \<Rightarrow> string \<Rightarrow> nat" where
  "radix_value base s = foldl (\<lambda>acc c. base * acc + digit_val c) 0 s"

definition dec_value :: "string \<Rightarrow> nat" where
  "dec_value s = radix_value 10 s"

definition radix_literal :: "string \<Rightarrow> (nat \<times> string) option" where
  \<comment> \<open>the radix and the digits of \<open>0x...\<close>, \<open>0o...\<close>, \<open>0b...\<close>, when the string is one\<close>
  "radix_literal s =
     (case s of
        z # x # ds \<Rightarrow>
          (let base = (if x = CHR ''x'' \<or> x = CHR ''X'' then 16
                       else if x = CHR ''o'' \<or> x = CHR ''O'' then 8
                       else if x = CHR ''b'' \<or> x = CHR ''B'' then 2
                       else (0 :: nat))
           in if z = CHR ''0'' \<and> 0 < base \<and> ds \<noteq> []
                 \<and> list_all (\<lambda>c. is_hex c \<and> digit_val c < base) ds
              then Some (base, ds) else None)
      | _ \<Rightarrow> None)"

definition exponent_part :: "string \<Rightarrow> int option" where
  \<comment> \<open>what follows the mantissa: nothing, or \<open>e\<close> or \<open>E\<close>, an optional sign, and digits\<close>
  "exponent_part s =
     (case s of
        [] \<Rightarrow> Some 0
      | c # r \<Rightarrow>
          if c = CHR ''e'' \<or> c = CHR ''E'' then
            (let negative = (case r of [] \<Rightarrow> False | d # _ \<Rightarrow> d = CHR ''-'');
                 signed = (case r of [] \<Rightarrow> False | d # _ \<Rightarrow> d = CHR ''-'' \<or> d = CHR ''+'');
                 ds = (if signed then tl r else r)
             in if ds \<noteq> [] \<and> list_all is_digit ds
                then Some (if negative then - int (dec_value ds) else int (dec_value ds))
                else None)
          else None)"

definition unsigned_decimal :: "string \<Rightarrow> (nat \<times> int) option" where
  \<comment> \<open>the decimal mantissa \<open>m\<close> and exponent \<open>e\<close> of a literal worth \<open>m * 10^e\<close>: digits, then
      optionally a point and digits, then optionally an exponent; a digit is required
      before or behind the point\<close>
  "unsigned_decimal s =
     (let ip = takeWhile is_digit s;
          r1 = dropWhile is_digit s;
          has_point = (case r1 of [] \<Rightarrow> False | c # _ \<Rightarrow> c = CHR ''.'');
          fp = (if has_point then takeWhile is_digit (tl r1) else []);
          r2 = (if has_point then dropWhile is_digit (tl r1) else r1)
      in if ip = [] \<and> fp = [] then None
         else (case exponent_part r2 of
                 None \<Rightarrow> None
               | Some e \<Rightarrow> Some (dec_value (ip @ fp), e - int (length fp))))"

definition decimal_to_double :: "nat \<Rightarrow> int \<Rightarrow> jsnum" where
  "decimal_to_double m e =
     (if 0 \<le> e then to_double (m * 10 ^ nat e) 1 else to_double m (10 ^ nat (- e)))"

definition Number_js :: "string \<Rightarrow> jsnum" where
  "Number_js s =
     (let t = trim s in
      if t = [] then Dbl 0 0
      else (case radix_literal t of
              Some (base, ds) \<Rightarrow> to_double (radix_value base ds) 1
            | None \<Rightarrow>
                (let negative = (hd t = CHR ''-'');
                     u = (if hd t = CHR ''-'' \<or> hd t = CHR ''+'' then tl t else t);
                     magnitude =
                       (if u = ''Infinity'' then PosInf
                        else (case unsigned_decimal u of
                                None \<Rightarrow> NaN
                              | Some (m, e) \<Rightarrow> decimal_to_double m e))
                 in if negative then negate magnitude else magnitude)))"

section \<open>Version comparison\<close>

text \<open>
  \<open>compareVersions\<close> of the web server: both versions are split at the dots, every piece
  goes through \<open>Number\<close>, and the loop walks the indices below the longer length, reading 0
  where a list has no element.
\<close>

definition part_at :: "jsnum list \<Rightarrow> nat \<Rightarrow> jsnum" where
  \<comment> \<open>\<open>i < parts.length ? parts[i] : 0\<close>\<close>
  "part_at parts i = (if i < length parts then parts ! i else Num 0)"

function compareVersions_loop :: "jsnum list \<Rightarrow> jsnum list \<Rightarrow> nat \<Rightarrow> int" where
  "compareVersions_loop v1Parts v2Parts i =
     (if i < max (length v1Parts) (length v2Parts) then
        (if js_gt (part_at v1Parts i) (part_at v2Parts i) then 1
         else if js_lt (part_at v1Parts i) (part_at v2Parts i) then - 1
         else compareVersions_loop v1Parts v2Parts (i + 1))
      else 0)"
  by pat_completeness auto
termination
  by (relation "measure (\<lambda>(p1, p2, i). max (length p1) (length p2) - i)") auto

definition compareVersions :: "string \<Rightarrow> string \<Rightarrow> int" where
  "compareVersions v1 v2 =
     compareVersions_loop (map Number_js (split_on CHR ''.'' v1))
                          (map Number_js (split_on CHR ''.'' v2)) 0"

subsection \<open>The comparison the specification describes\<close>

text \<open>
  Following the specification's words: a dotted-numeric version is a sequence of numbers,
  the shorter sequence is extended with zeros, and the sequences are compared component by
  component from the left.
\<close>

definition dotted_numeric :: "string \<Rightarrow> bool" where
  \<comment> \<open>non-empty groups of digits separated by dots\<close>
  "dotted_numeric v =
     list_all (\<lambda>p. p \<noteq> [] \<and> list_all is_digit p) (split_on CHR ''.'' v)"

definition exact_components :: "string \<Rightarrow> bool" where
  \<comment> \<open>every component is at most \<open>2^53\<close>, the range in which each natural number is a
      double\<close>
  "exact_components v =
     list_all (\<lambda>p. dec_value p \<le> 9007199254740992) (split_on CHR ''.'' v)"

definition version_components :: "string \<Rightarrow> nat list" where
  "version_components v = map dec_value (split_on CHR ''.'' v)"

definition pad_zeros :: "nat \<Rightarrow> nat list \<Rightarrow> nat list" where
  "pad_zeros n xs = xs @ replicate (n - length xs) 0"

fun componentwise :: "nat list \<Rightarrow> nat list \<Rightarrow> int" where
  "componentwise (x # xs) (y # ys) =
     (if y < x then 1 else if x < y then - 1 else componentwise xs ys)"
| "componentwise _ _ = 0"

definition spec_compareVersions :: "string \<Rightarrow> string \<Rightarrow> int" where
  "spec_compareVersions v1 v2 =
     (let a = version_components v1; b = version_components v2;
          n = max (length a) (length b)
      in componentwise (pad_zeros n a) (pad_zeros n b))"

section \<open>Names and versions of image files\<close>

text \<open>
  The regular expressions of the web server are written out as scanners. A matcher gives
  the length of the match that starts at the head of its argument, 0 when there is none
  (no expression used here matches the empty string). \<open>replace_g\<close> is
  \<open>s.replace(/re/g, '')\<close>: it walks the string from the left, drops every match, and
  resumes behind it.
\<close>

fun replace_g :: "(string \<Rightarrow> nat) \<Rightarrow> nat \<Rightarrow> string \<Rightarrow> string" where
  \<comment> \<open>the number is how many characters of the current match are still to be dropped\<close>
  "replace_g m k [] = []"
| "replace_g m (Suc k) (c # cs) = replace_g m k cs"
| "replace_g m 0 (c # cs) =
     (case m (c # cs) of
        0 \<Rightarrow> c # replace_g m 0 cs
      | Suc n \<Rightarrow> replace_g m n cs)"

fun version_groups :: "bool \<Rightarrow> string \<Rightarrow> nat" where
  \<comment> \<open>length of the longest prefix of the form \<open>(\.\d+)*\<close>; the flag says that the previous
      character was a digit of a group, so that more digits may follow\<close>
  "version_groups in_digits [] = 0"
| "version_groups in_digits (c # cs) =
     (if in_digits \<and> is_digit c then 1 + version_groups True cs
      else if c = CHR ''.'' then
        (case cs of
           [] \<Rightarrow> 0
         | d # ds \<Rightarrow> if is_digit d then 2 + version_groups True ds else 0)
      else 0)"

definition version_match :: "string \<Rightarrow> nat" where
  \<comment> \<open>\<open>\d+(\.\d+)+\<close> at the head of the string\<close>
  "version_match s =
     (let d = length (takeWhile is_digit s) in
      if d = 0 then 0
      else (let g = version_groups False (drop d s) in
            if g = 0 then 0 else d + g))"

fun extractVersionFromFilename :: "string \<Rightarrow> string option" where
  \<comment> \<open>\<open>filename.match(/[\d]+(\.[\d]+)+/)\<close>: the leftmost match, \<open>null\<close> without one\<close>
  "extractVersionFromFilename [] = None"
| "extractVersionFromFilename (c # cs) =
     (if 0 < version_match (c # cs) then Some (take (version_match (c # cs)) (c # cs))
      else extractVersionFromFilename cs)"

definition sep_len :: "string \<Rightarrow> nat" where
  \<comment> \<open>\<open>[-_]?\<close>\<close>
  "sep_len s = (case s of [] \<Rightarrow> 0 | c # _ \<Rightarrow> if c = CHR ''-'' \<or> c = CHR ''_'' then 1 else 0)"

definition first_word :: "string list \<Rightarrow> string \<Rightarrow> string option" where
  \<comment> \<open>an alternation \<open>(w1|w2|...)\<close> of plain words: the first alternative that matches\<close>
  "first_word ws s = List.find (\<lambda>w. isPrefixOf w s) ws"

definition sep_version_match :: "string \<Rightarrow> nat" where
  \<comment> \<open>\<open>[-_]?\d+(\.\d+)+[-_]?\<close>\<close>
  "sep_version_match s =
     (let a = sep_len s; v = version_match (drop a s) in
      if v = 0 then 0 else a + v + sep_len (drop (a + v) s))"

definition sep_word_match :: "string list \<Rightarrow> string \<Rightarrow> nat" where
  \<comment> \<open>\<open>[-_]?(w1|w2|...)[-_]?\<close>\<close>
  "sep_word_match ws s =
     (let a = sep_len s in
      case first_word ws (drop a s) of
        None \<Rightarrow> 0
      | Some w \<Rightarrow> a + length w + sep_len (drop (a + length w) s))"

definition strip_extension :: "string \<Rightarrow> string" where
  \<comment> \<open>\<open>s.replace(/\.(iso|img|esd)$/i, '')\<close>\<close>
  "strip_extension s =
     (if endsWith (toLowerCase s) ''.iso'' \<or> endsWith (toLowerCase s) ''.img''
         \<or> endsWith (toLowerCase s) ''.esd''
      then take (length s - 4) s else s)"

definition is_lower_alnum :: "char \<Rightarrow> bool" where
  "is_lower_alnum c = (c \<in> set ''abcdefghijklmnopqrstuvwxyz0123456789'')"

definition normalizeIsoName :: "string \<Rightarrow> string" where
  "normalizeIsoName name =
     (let normalized = toLowerCase name;
          normalized = strip_extension normalized;
          normalized = replace_g sep_version_match 0 normalized;
          normalized = replace_g
            (sep_word_match [''amd64'', ''x86_64'', ''i386'', ''x86'', ''arm64'']) 0 normalized;
          normalized = replace_g
            (sep_word_match [''live'', ''desktop'', ''server'', ''netinst'', ''dvd'', ''cd'']) 0
            normalized
      in filter is_lower_alnum normalized)"

section \<open>The archive catalog of the web server\<close>

text \<open>
  One entry of \<open>isos.json\<close>. A missing, \<open>null\<close> or empty version is told apart from a
  present one only by truthiness in the program, so it is an optional string here; a size
  that is missing or 0 is 0.
\<close>

record iso_record =
  rec_name :: string
  rec_filename :: string
  rec_version :: "string option"
  rec_hash :: string
  rec_size :: nat
  rec_addedDate :: string

text \<open>The \<open>iso\<close> argument of \<open>addIsoToJson\<close>: the listing entry that was downloaded.\<close>

record iso_info =
  iso_name :: string
  iso_version :: "string option"

definition truthy :: "string option \<Rightarrow> bool" where
  \<comment> \<open>a string is truthy when it is present and not empty\<close>
  "truthy v = (case v of None \<Rightarrow> False | Some s \<Rightarrow> s \<noteq> [])"

definition or_else :: "string option \<Rightarrow> string option \<Rightarrow> string option" where
  \<comment> \<open>\<open>a || b\<close> on strings\<close>
  "or_else a b = (if truthy a then a else b)"

definition string_of :: "string option \<Rightarrow> string" where
  \<comment> \<open>a string or, in its absence, the empty string\<close>
  "string_of v = (case v of None \<Rightarrow> [] | Some s \<Rightarrow> s)"

fun findIndex :: "('a \<Rightarrow> bool) \<Rightarrow> 'a list \<Rightarrow> nat option" where
  \<comment> \<open>\<open>Array.prototype.findIndex\<close>, with \<open>None\<close> for -1\<close>
  "findIndex P [] = None"
| "findIndex P (x # xs) =
     (if P x then Some 0 else map_option Suc (findIndex P xs))"

definition addIsoToJson ::
  "iso_record list \<Rightarrow> iso_info \<Rightarrow> string \<Rightarrow> string option \<Rightarrow> nat \<Rightarrow> string \<Rightarrow> iso_record list"
where
  \<comment> \<open>the catalog read from \<open>isos.json\<close>, the call's arguments, and the time of the call;
      the result is the catalog written back\<close>
  "addIsoToJson isos isoInfo filename hash size_bytes now =
     (let normalizedName = normalizeIsoName (iso_name isoInfo);
          existingIndex =
            (case findIndex (\<lambda>item. rec_filename item = filename) isos of
               Some i \<Rightarrow> Some i
             | None \<Rightarrow> findIndex (\<lambda>item. normalizeIsoName (rec_name item) = normalizedName) isos);
          isoData = \<lparr> rec_name = iso_name isoInfo,
                      rec_filename = filename,
                      rec_version = or_else (iso_version isoInfo) (extractVersionFromFilename filename),
                      rec_hash = string_of hash,
                      rec_size = size_bytes,
                      rec_addedDate = now \<rparr>
      in case existingIndex of
           Some i \<Rightarrow> isos[i := isoData]
         | None \<Rightarrow> isos @ [isoData])"


definition getIsoDataFromJson :: "iso_record list \<Rightarrow> string \<Rightarrow> iso_record option" where
  "getIsoDataFromJson isos filename = List.find (\<lambda>item. rec_filename item = filename) isos"

definition getIsoDataByName :: "iso_record list \<Rightarrow> string \<Rightarrow> iso_record option" where
  "getIsoDataByName isos name =
     List.find (\<lambda>item. normalizeIsoName (rec_name item) = normalizeIsoName name) isos"

subsection \<open>The record that an upsert displaces\<close>

definition overwritten_by_name :: "iso_record list \<Rightarrow> iso_info \<Rightarrow> string \<Rightarrow> iso_record option" where
  \<comment> \<open>when the file name is new to the catalog, the first record whose normalized name is
      that of the added image; it is the one \<open>addIsoToJson\<close> overwrites\<close>
  "overwritten_by_name isos isoInfo filename =
     (if filename \<in> rec_filename ` set isos then None
      else List.find (\<lambda>item. normalizeIsoName (rec_name item) = normalizeIsoName (iso_name isoInfo))
             isos)"

definition isoData_of :: "iso_info \<Rightarrow> string \<Rightarrow> string option \<Rightarrow> nat \<Rightarrow> string \<Rightarrow> iso_record" where
  \<comment> \<open>the record built from the arguments of one call alone\<close>
  "isoData_of isoInfo filename hash size_bytes now =
     \<lparr> rec_name = iso_name isoInfo,
       rec_filename = filename,
       rec_version = or_else (iso_version isoInfo) (extractVersionFromFilename filename),
       rec_hash = string_of hash,
       rec_size = size_bytes,
       rec_addedDate = now \<rparr>"

section \<open>Marking listing entries against the archive\<close>

text \<open>
  One value of the listing object handed to \<open>markArchivedIsos\<close>. \<open>d_urlFilename\<close> stands
  for \<open>path.basename(new URL(details.url).pathname)\<close>, the file name the URL ends in; the
  URL is taken to be well formed. A size that is missing counts as 0, as it does under the
  truthiness tests of the program.
\<close>

record iso_details =
  d_urlFilename :: string
  d_version :: "string option"
  d_size :: nat
  d_inArchive :: bool
  d_updateAvailable :: bool
  d_filename :: "string option"

fun find_related :: "string \<Rightarrow> string list \<Rightarrow> string option" where
  \<comment> \<open>the loop over the directory listing that looks for a related file\<close>
  "find_related normalizedName [] = None"
| "find_related normalizedName (file # files) =
     (if \<not> endsWith file ''.iso'' \<and> \<not> endsWith file ''.img''
      then find_related normalizedName files
      else if normalizeIsoName file = normalizedName
              \<or> includes_str file normalizedName
              \<or> includes_str normalizedName (normalizeIsoName file)
      then Some file
      else find_related normalizedName files)"

definition find_match ::
  "string list \<Rightarrow> iso_record list \<Rightarrow> string \<Rightarrow> string
     \<Rightarrow> string option \<times> iso_record option \<times> bool"
where
  \<comment> \<open>\<open>matchedFile\<close>, \<open>matchedIsoData\<close> and \<open>exactMatch\<close> for one listing entry\<close>
  "find_match files isos name isoFilename =
     (let by_filename =
            (if isoFilename \<in> set files
             then (Some isoFilename, getIsoDataFromJson isos isoFilename, True)
             else (case find_related (normalizeIsoName name) files of
                     None \<Rightarrow> (None, None, False)
                   | Some file \<Rightarrow> (Some file, getIsoDataFromJson isos file, False)))
      in case getIsoDataByName isos name of
           None \<Rightarrow> by_filename
         | Some isoDataByName \<Rightarrow>
             if rec_filename isoDataByName \<in> set files
             then (Some (rec_filename isoDataByName), Some isoDataByName, True)
             else by_filename)"

definition version_newer :: "string option \<Rightarrow> string option \<Rightarrow> bool" where
  \<comment> \<open>\<open>compareVersions(newVersion, archivedVersion) > 0\<close>, reached with two present versions\<close>
  "version_newer newVersion archivedVersion =
     (case (newVersion, archivedVersion) of
        (Some n, Some a) \<Rightarrow> 0 < compareVersions n a
      | _ \<Rightarrow> False)"

definition versions_differ :: "string option \<Rightarrow> string option \<Rightarrow> bool" where
  \<comment> \<open>\<open>archivedVersion && newVersion && archivedVersion !== newVersion\<close>\<close>
  "versions_differ archivedVersion newVersion =
     (truthy archivedVersion \<and> truthy newVersion \<and> archivedVersion \<noteq> newVersion)"

definition newVersion_of :: "iso_details \<Rightarrow> string option" where
  \<comment> \<open>\<open>detailsCopy.version || extractVersionFromFilename(isoFilename)\<close>\<close>
  "newVersion_of details =
     or_else (d_version details) (extractVersionFromFilename (d_urlFilename details))"

definition size_gap :: "nat \<Rightarrow> nat \<Rightarrow> bool" where
  \<comment> \<open>both sizes truthy and \<open>Math.abs(a - b) > 1024 * 1024\<close>\<close>
  "size_gap a b = (a \<noteq> 0 \<and> b \<noteq> 0 \<and> 1024 * 1024 < \<bar>int a - int b\<bar>)"

definition update_check ::
  "iso_details \<Rightarrow> string \<Rightarrow> iso_record option \<Rightarrow> bool \<Rightarrow> nat \<Rightarrow> bool"
where
  \<comment> \<open>the value of \<open>updateAvailable\<close> once a file has matched; the last argument is the
      size \<open>fs.statSync\<close> reports for the matched file\<close>
  "update_check details matchedFile matchedIsoData exactMatch stat_size =
     (case matchedIsoData of
        Some m \<Rightarrow>
          if versions_differ (rec_version m) (newVersion_of details)
          then version_newer (newVersion_of details) (rec_version m)
          else size_gap (d_size details) (rec_size m)
      | None \<Rightarrow>
          (d_size details \<noteq> 0 \<and> stat_size \<noteq> d_size details)
          \<or> (truthy (d_version details) \<and> \<not> exactMatch
              \<and> versions_differ (extractVersionFromFilename matchedFile) (newVersion_of details)
              \<and> version_newer (newVersion_of details)
                    (extractVersionFromFilename matchedFile)))"

definition markArchivedIso ::
  "string list \<Rightarrow> iso_record list \<Rightarrow> (string \<Rightarrow> nat) \<Rightarrow> string \<Rightarrow> iso_details \<Rightarrow> iso_details"
where
  \<comment> \<open>the body of the loop over the listing\<close>
  "markArchivedIso files isos stat_size name details =
     (case find_match files isos name (d_urlFilename details) of
        (None, _, _) \<Rightarrow>
          details \<lparr> d_inArchive := False, d_updateAvailable := False,
                    d_filename := Some (d_urlFilename details) \<rparr>
      | (Some matchedFile, matchedIsoData, exactMatch) \<Rightarrow>
          details \<lparr> d_inArchive := True,
                    d_updateAvailable :=
                      update_check details matchedFile matchedIsoData exactMatch
                        (stat_size matchedFile),
                    d_filename := Some matchedFile \<rparr>)"

definition markArchivedIsos ::
  "string list option \<Rightarrow> iso_record list \<Rightarrow> (string \<Rightarrow> nat)
     \<Rightarrow> (string \<times> iso_details) list \<Rightarrow> (string \<times> iso_details) list"
where
  \<comment> \<open>the first argument is the listing of the archive directory, \<open>None\<close> when the
      directory does not exist; the listing object is a list of its entries\<close>
  "markArchivedIsos archive isos stat_size isoList =
     (case archive of
        None \<Rightarrow> isoList
      | Some files \<Rightarrow>
          map (\<lambda>(name, details). (name, markArchivedIso files isos stat_size name details))
              isoList)"

subsection \<open>Update detection as the specification words it\<close>


section \<open>Errors, promises and the network\<close>

datatype js_error =
    SyntaxError
  | TooManyRedirects
  | HttpError nat
  | NetworkError string
  | FileWriteError string
  | DigestError
  | FileNotFound string
  | TimedOut
  | OutsideArchive
  | InvalidUrl string

text \<open>
  A promise is observed when it has settled, or never: \<open>Pending\<close> is the promise that
  neither resolves nor rejects.
\<close>

datatype 'a settled = Pending | Rejected js_error | Resolved 'a

text \<open>
  The network is the list of answers that the successive GET requests of one operation
  receive. An answer is either an \<open>error\<close> event on the request before any response, or
  a response with its status code, its \<open>Location\<close> header, the chunks of the body that
  arrive, and the event that ends the transfer: \<open>finish\<close> of the write stream, \<open>error\<close>
  on the request, or \<open>error\<close> on the write stream. An empty list is a server that never
  answers. A byte is a character.
\<close>

datatype transfer_end = Finished | RequestError string | StreamError string

datatype exchange =
    NoResponse string
  | Response nat "string option" "string list" transfer_end

type_synonym filesystem = "string \<rightharpoonup> string"

text \<open>
  \<open>crypto.createHash(algorithm)\<close> throws for an algorithm it does not know; for a known one
  it digests the bytes to a hex string. The table of digests is a parameter.
\<close>

type_synonym crypto = "string \<Rightarrow> (string \<Rightarrow> string) option"

text \<open>
  \<open>new URL(location, base).toString()\<close> is a parameter of the functions that call it: the
  first argument is the \<open>Location\<close> header, absent when the response has none.
\<close>

type_synonym url_resolver = "string option \<Rightarrow> string \<Rightarrow> string"

definition absolute_location :: url_resolver where
  \<comment> \<open>the resolver on servers whose \<open>Location\<close> headers are absolute URLs in normal form\<close>
  "absolute_location location base = (case location of None \<Rightarrow> base | Some l \<Rightarrow> l)"

section \<open>Paths\<close>

text \<open>The functions of the \<open>path\<close> module, in their POSIX form.\<close>

definition is_slash :: "char \<Rightarrow> bool" where
  "is_slash c = (c = CHR ''/'')"


fun normalize_segments :: "bool \<Rightarrow> string list \<Rightarrow> string list \<Rightarrow> string list" where
  \<comment> \<open>the segments kept so far, last one first, and the segments still to be read; the flag
      allows \<open>..\<close> to climb above the start of a relative path\<close>
  "normalize_segments allowAboveRoot kept [] = rev kept"
| "normalize_segments allowAboveRoot kept (seg # segs) =
     (if seg = [] \<or> seg = ''.'' then normalize_segments allowAboveRoot kept segs
      else if seg = ''..'' then
        (case kept of
           [] \<Rightarrow> normalize_segments allowAboveRoot
                   (if allowAboveRoot then [''..''] else []) segs
         | k # ks \<Rightarrow>
             if k = ''..'' then normalize_segments allowAboveRoot (''..'' # k # ks) segs
             else normalize_segments allowAboveRoot ks segs)
      else normalize_segments allowAboveRoot (seg # kept) segs)"

fun join_with_slash :: "string list \<Rightarrow> string" where
  "join_with_slash [] = []"
| "join_with_slash [seg] = seg"
| "join_with_slash (seg # segs) = seg @ ''/'' @ join_with_slash segs"

definition isAbsolute :: "string \<Rightarrow> bool" where
  "isAbsolute p = (case p of [] \<Rightarrow> False | c # _ \<Rightarrow> is_slash c)"

definition normalize :: "string \<Rightarrow> string" where
  \<comment> \<open>\<open>path.normalize\<close>\<close>
  "normalize p =
     (if p = [] then ''.''
      else (let trailingSeparator = is_slash (last p);
                body = join_with_slash
                         (normalize_segments (\<not> isAbsolute p) [] (split_on CHR ''/'' p))
            in if body = [] then
                 (if isAbsolute p then ''/'' else if trailingSeparator then ''./'' else ''.'')
               else (if isAbsolute p then ''/'' else []) @ body
                    @ (if trailingSeparator then ''/'' else [])))"

definition path_join :: "string list \<Rightarrow> string" where
  \<comment> \<open>\<open>path.join\<close>: empty arguments are skipped, the rest is joined and normalized\<close>
  "path_join parts =
     (let joined = join_with_slash (filter (\<lambda>part. part \<noteq> []) parts)
      in if joined = [] then ''.'' else normalize joined)"

section \<open>Deleting a file of the archive through the web server\<close>

text \<open>
  What the handler of \<open>DELETE /api/iso-archive/:filename\<close> sees of the machine: the entries
  of the file system other than the catalog document, and the catalog document, absent
  when \<open>isos.json\<close> does not exist. The reply is its status code.
\<close>

datatype node = File string | Directory

record archive_state =
  st_fs :: "string \<rightharpoonup> node"
  st_isos :: "iso_record list option"




section \<open>The catalog and the delete command of the command line tool\<close>

definition updateIsosJson ::
  "iso_record list option \<Rightarrow> iso_record \<Rightarrow> bool \<Rightarrow> iso_record list option"
where
  \<comment> \<open>the catalog document, \<open>meta\<close> and the \<open>remove\<close> flag; nothing is read or written when
      \<open>isos.json\<close> does not exist\<close>
  "updateIsosJson doc meta remove =
     (case doc of
        None \<Rightarrow> None
      | Some isos \<Rightarrow>
          Some (filter (\<lambda>i. rec_filename i \<noteq> rec_filename meta) isos
                @ (if remove then [] else [meta])))"

definition deleteArchiveIso :: "string \<Rightarrow> string \<Rightarrow> archive_state \<Rightarrow> js_error + archive_state" where
  \<comment> \<open>the resolved archive directory and the file name given on the command line; an
      error is the exit of the process with status 1\<close>
  "deleteArchiveIso archivePath filename st =
     (let filePath = path_join [archivePath, filename];
          isosJsonPath = path_join [archivePath, ''isos.json'']
      in if \<not> isPrefixOf archivePath filePath then Inl OutsideArchive
         else if filePath = isosJsonPath then
           (case st_isos st of
              None \<Rightarrow> Inl (FileNotFound filename)
            | Some isos \<Rightarrow> Inr (st \<lparr> st_isos := None \<rparr>))
         else (case st_fs st filePath of
                 None \<Rightarrow> Inl (FileNotFound filename)
               | Some Directory \<Rightarrow> Inl (FileWriteError filePath)
               | Some (File content) \<Rightarrow>
                   Inr (st \<lparr> st_fs := (st_fs st)(filePath := None),
                            st_isos := map_option
                              (filter (\<lambda>i. rec_filename i \<noteq> filename \<and> rec_name i \<noteq> filename))
                              (st_isos st) \<rparr>)))"

section \<open>Following redirects and fetching text\<close>

text \<open>
  \<open>IsoManager.followRedirects\<close>: at most \<open>maxRedirects\<close> requests; a request that fails or
  is answered by anything but 301 or 302 ends the walk with the current URL, and so does
  the end of the loop. The result carries the answers not yet consumed; \<open>None\<close> is the call
  that never returns because an answer never comes.
\<close>

fun followRedirects ::
  "url_resolver \<Rightarrow> nat \<Rightarrow> string \<Rightarrow> exchange list \<Rightarrow> (string \<times> exchange list) option"
where
  "followRedirects resolveUrl 0 currentUrl script = Some (currentUrl, script)"
| "followRedirects resolveUrl (Suc n) currentUrl [] = None"
| "followRedirects resolveUrl (Suc n) currentUrl (NoResponse err # script) =
     Some (currentUrl, script)"
| "followRedirects resolveUrl (Suc n) currentUrl (Response status location chunks ending # script) =
     (if status \<noteq> 301 \<and> status \<noteq> 302 then Some (currentUrl, script)
      else followRedirects resolveUrl n (resolveUrl location currentUrl) script)"

text \<open>
  \<open>fetchData\<close> of the command line tool: a redirect is followed while \<open>maxRedirects\<close> is
  positive and rejected with \<open>Too many redirects\<close> otherwise; the request has a timeout of
  thirty seconds, so a server that never answers gives a rejection. The body is collected
  in memory: no file is written, and a transfer ends with the data or with an error on the
  request.
\<close>

fun fetchData :: "url_resolver \<Rightarrow> nat \<Rightarrow> string \<Rightarrow> exchange list \<Rightarrow> string settled" where
  "fetchData resolveUrl maxRedirects url [] = Rejected TimedOut"
| "fetchData resolveUrl maxRedirects url (NoResponse err # script) = Rejected (NetworkError err)"
| "fetchData resolveUrl maxRedirects url (Response status location chunks ending # script) =
     (if 300 \<le> status \<and> status < 400 \<and> truthy location then
        (case maxRedirects of
           0 \<Rightarrow> Rejected TooManyRedirects
         | Suc n \<Rightarrow> fetchData resolveUrl n (resolveUrl location url) script)
      else if status \<noteq> 200 then Rejected (HttpError status)
      else (case ending of
              RequestError err \<Rightarrow> Rejected (NetworkError err)
            | _ \<Rightarrow> Resolved (concat chunks)))"

section \<open>Downloading\<close>

definition is_redirect :: "exchange \<Rightarrow> bool" where
  \<comment> \<open>a response with a status from 300 to 399 and a \<open>Location\<close> header\<close>
  "is_redirect answer =
     (case answer of
        NoResponse err \<Rightarrow> False
      | Response status location chunks ending \<Rightarrow>
          300 \<le> status \<and> status < 400 \<and> truthy location)"

text \<open>
  The result object of a download. The web server's downloader fills \<open>path\<close>, \<open>size\<close>,
  \<open>hash\<close>, \<open>error\<close>, \<open>expected\<close> and \<open>actual\<close> as the case requires (its \<open>duration\<close> and
  \<open>speed\<close> are clock readings and are left out); \<open>IsoManager\<close> fills \<open>filePath\<close>, \<open>filename\<close>
  and \<open>size\<close>.
\<close>

record download_result =
  res_success :: bool
  res_path :: string
  res_filename :: "string option"
  res_size :: "nat option"
  res_hash :: "string option"
  res_error :: "string option"
  res_expected :: "string option"
  res_actual :: "string option"


fun downloadAndVerifyFile ::
  "(string \<Rightarrow> bool) \<Rightarrow> crypto \<Rightarrow> exchange list \<Rightarrow> filesystem \<Rightarrow> string \<Rightarrow> string
     \<Rightarrow> string option \<Rightarrow> string \<Rightarrow> download_result settled \<times> filesystem"
where
  "downloadAndVerifyFile http_get_accepts crypto [] fs url outputPath expectedHash hashAlgorithm =
     (if truthy expectedHash \<and> crypto hashAlgorithm = None
      then (Rejected DigestError, fs(outputPath \<mapsto> []))
      else if \<not> http_get_accepts url
      then (Rejected (InvalidUrl url), fs(outputPath \<mapsto> []))
      else (Pending, fs(outputPath \<mapsto> [])))"
| "downloadAndVerifyFile http_get_accepts crypto (answer # script) fs url outputPath expectedHash
     hashAlgorithm =
     (if truthy expectedHash \<and> crypto hashAlgorithm = None
      then (Rejected DigestError, fs(outputPath \<mapsto> []))
      else if \<not> http_get_accepts url
      then (Rejected (InvalidUrl url), fs(outputPath \<mapsto> []))
      else (case answer of
        NoResponse err \<Rightarrow> (Rejected (NetworkError err), fs(outputPath := None))
      | Response status location chunks ending \<Rightarrow>
          if 300 \<le> status \<and> status < 400 \<and> truthy location then
            downloadAndVerifyFile http_get_accepts crypto script (fs(outputPath \<mapsto> []))
              (string_of location) outputPath expectedHash hashAlgorithm
          else if status \<noteq> 200 then (Rejected (HttpError status), fs(outputPath := None))
          else (case ending of
                  RequestError err \<Rightarrow> (Rejected (NetworkError err), fs(outputPath := None))
                | StreamError err \<Rightarrow> (Rejected (FileWriteError err), fs(outputPath := None))
                | Finished \<Rightarrow>
                    (let downloadedBytes = length (concat chunks);
                         written = fs(outputPath \<mapsto> concat chunks)
                     in case (if truthy expectedHash then crypto hashAlgorithm else None) of
                          Some digest \<Rightarrow>
                            (let calculatedHash = digest (concat chunks) in
                             if toLowerCase calculatedHash = toLowerCase (string_of expectedHash)
                             then (Resolved \<lparr> res_success = True, res_path = outputPath,
                                              res_filename = None,
                                              res_size = Some downloadedBytes,
                                              res_hash = Some calculatedHash,
                                              res_error = None, res_expected = None,
                                              res_actual = None \<rparr>, written)
                             else (Resolved \<lparr> res_success = False, res_path = outputPath,
                                              res_filename = None, res_size = None,
                                              res_hash = None,
                                              res_error = Some ''Hash verification failed'',
                                              res_expected = expectedHash,
                                              res_actual = Some calculatedHash \<rparr>, written))
                        | None \<Rightarrow>
                            (Resolved \<lparr> res_success = True, res_path = outputPath,
                                         res_filename = None,
                                         res_size = Some downloadedBytes,
                                         res_hash = None, res_error = None,
                                         res_expected = None, res_actual = None \<rparr>,
                             written)))))"

text \<open>
  \<open>IsoManager.downloadAndVerifyFile\<close> of the command line tool. It resolves redirects with
  \<open>followRedirects\<close>, takes the file name from the last segment of the final URL, opens the
  write stream and requests the final URL. Its handlers destroy the stream or reject; none
  of them removes the file. The second argument is the resolved output directory.
\<close>

definition last_segment :: "string \<Rightarrow> string" where
  \<comment> \<open>\<open>finalUrl.split('/').pop()\<close>\<close>
  "last_segment url = last (split_on CHR ''/'' url)"

function IsoManager_downloadAndVerifyFile ::
  "url_resolver \<Rightarrow> string \<Rightarrow> exchange list \<Rightarrow> filesystem \<Rightarrow> string
     \<Rightarrow> download_result settled \<times> filesystem"
where
  "IsoManager_downloadAndVerifyFile resolveUrl resolvedOutputPath script fs url =
     (case followRedirects resolveUrl 5 url script of
        None \<Rightarrow> (Pending, fs)
      | Some (finalUrl, script1) \<Rightarrow>
          (let filename = last_segment finalUrl;
               downloadPath = path_join [resolvedOutputPath, filename];
               opened = fs(downloadPath \<mapsto> [])
           in case script1 of
                [] \<Rightarrow> (Pending, opened)
              | NoResponse err # script2 \<Rightarrow> (Rejected (NetworkError err), opened)
              | Response status location chunks ending # script2 \<Rightarrow>
                  if status = 301 \<or> status = 302 then
                    IsoManager_downloadAndVerifyFile resolveUrl resolvedOutputPath script2 opened
                      (resolveUrl location finalUrl)
                  else if status \<noteq> 200 then (Rejected (HttpError status), opened)
                  else (case ending of
                          RequestError err \<Rightarrow>
                            (Rejected (NetworkError err), fs(downloadPath \<mapsto> concat chunks))
                        | StreamError err \<Rightarrow>
                            (Rejected (FileWriteError err), fs(downloadPath \<mapsto> concat chunks))
                        | Finished \<Rightarrow>
                            (Resolved \<lparr> res_success = True, res_path = downloadPath,
                                         res_filename = Some filename, res_size = Some 0,
                                         res_hash = None, res_error = None,
                                         res_expected = None, res_actual = None \<rparr>,
                             fs(downloadPath \<mapsto> concat chunks)))))"
  by pat_completeness auto
termination
proof -
  have consumes: "length rest \<le> length script"
    if "followRedirects resolveUrl n url script = Some (finalUrl, rest)"
    for resolveUrl n url script finalUrl rest
    using that
  proof (induction resolveUrl n url script rule: followRedirects.induct)
    case (4 resolveUrl n currentUrl status location chunks ending script)
    then show ?case by (auto split: if_splits)
  qed auto
  show ?thesis
  proof (relation "measure (\<lambda>(resolveUrl, out, script, fs, url). length script)")
    show "wf (measure (\<lambda>(resolveUrl, out, script, fs, url). length script))" by simp
  qed (auto dest!: consumes)
qed

section \<open>Verifying a file\<close>

record verify_result =
  v_filePath :: string
  v_hash :: string
  v_expectedHash :: "string option"
  v_algorithm :: "string option"
  v_isValid :: bool
  v_message :: string

definition calculateFileHash ::
  "crypto \<Rightarrow> filesystem \<Rightarrow> string \<Rightarrow> string option \<Rightarrow> js_error + string"
where
  \<comment> \<open>a missing algorithm takes the default of the parameter, \<open>sha256\<close>\<close>
  "calculateFileHash crypto fs filePath algorithm =
     (case crypto (case algorithm of None \<Rightarrow> ''sha256'' | Some a \<Rightarrow> a) of
        None \<Rightarrow> Inl DigestError
      | Some digest \<Rightarrow>
          (case fs filePath of
             None \<Rightarrow> Inl (FileNotFound filePath)
           | Some bytes \<Rightarrow> Inr (digest bytes)))"

definition verifyFile ::
  "crypto \<Rightarrow> filesystem \<Rightarrow> string \<Rightarrow> string option \<Rightarrow> string option
     \<Rightarrow> js_error + verify_result"
where
  "verifyFile crypto fs filePath expectedHash algorithm =
     (if fs filePath = None then Inl (FileNotFound filePath)
      else (case calculateFileHash crypto fs filePath algorithm of
              Inl err \<Rightarrow> Inl err
            | Inr hash \<Rightarrow>
                (let isValid = (if truthy expectedHash
                                then toLowerCase hash = toLowerCase (string_of expectedHash)
                                else True)
                 in Inr \<lparr> v_filePath = filePath, v_hash = hash,
                          v_expectedHash = expectedHash, v_algorithm = algorithm,
                          v_isValid = isValid,
                          v_message = (if isValid then ''Hash verified successfully''
                                       else ''Hash verification failed'') \<rparr>)))"

section \<open>Extracting a hash from a checksum file\<close>

subsection \<open>Regular expressions built at run time\<close>

text \<open>
  \<open>new RegExp(source)\<close> parses its argument and throws a \<open>SyntaxError\<close> when the argument
  is not a pattern. The parse is modelled by a scanner over the source that finds a
  quantifier \<open>*\<close>, \<open>+\<close>, \<open>?\<close> or \<open>{n,m}\<close> with nothing to repeat, a pattern that ends
  inside an escape, a character class or a group prefix, and unbalanced parentheses. A
  brace that does not open a well-formed \<open>{n}\<close>, \<open>{n,}\<close> or \<open>{n,m}\<close> is an ordinary
  character, as it is for patterns without the \<open>u\<close> flag. Other errors of the pattern
  grammar (ranges out of order, unknown group prefixes) are not found by the scanner; the
  patterns of this program do not contain them.
\<close>

definition backslash :: char where
  "backslash = CHR 0x5C"

datatype re_state =
    AtStart
  | AfterAtom
  | AfterQuantifier
  | InEscape
  | InClass
  | InClassEscape
  | AfterOpen
  | AfterOpenQ
  | InBraces bool nat

text \<open>
  \<open>AtStart\<close>: nothing to the left can be repeated (start of the pattern, of a group or of an
  alternative, or behind an assertion or a lazy quantifier). \<open>AfterAtom\<close>: a term that a
  quantifier may follow. \<open>AfterQuantifier\<close>: behind a quantifier, where only \<open>?\<close> may
  follow. \<open>InBraces q k\<close>: inside a candidate \<open>{n,m}\<close>, where \<open>q\<close> says that a term
  precedes it and \<open>k\<close> counts the part reached: 0 behind the brace, 1 in the first number,
  2 behind the comma.
\<close>

definition main_step :: "re_state \<Rightarrow> nat \<Rightarrow> char \<Rightarrow> (re_state \<times> nat) option" where
  \<comment> \<open>one character read in one of the three states outside escapes, classes and braces;
      the number is the depth of open parentheses; \<open>None\<close> is the syntax error\<close>
  "main_step st depth c =
     (if c = backslash then Some (InEscape, depth)
      else if c = CHR ''['' then Some (InClass, depth)
      else if c = CHR ''('' then Some (AfterOpen, depth + 1)
      else if c = CHR '')'' then (if depth = 0 then None else Some (AfterAtom, depth - 1))
      else if c = CHR ''|'' \<or> c = CHR ''^'' \<or> c = CHR ''$'' then Some (AtStart, depth)
      else if c = CHR ''*'' \<or> c = CHR ''+'' then
        (if st = AfterAtom then Some (AfterQuantifier, depth) else None)
      else if c = CHR ''?'' then
        (if st = AfterAtom then Some (AfterQuantifier, depth)
         else if st = AfterQuantifier then Some (AtStart, depth)
         else None)
      else if c = CHR ''{'' then Some (InBraces (st = AfterAtom) 0, depth)
      else Some (AfterAtom, depth))"

definition re_step :: "re_state \<Rightarrow> nat \<Rightarrow> char \<Rightarrow> (re_state \<times> nat) option" where
  "re_step st depth c =
     (case st of
        InEscape \<Rightarrow> Some (AfterAtom, depth)
      | InClass \<Rightarrow>
          if c = backslash then Some (InClassEscape, depth)
          else if c = CHR '']'' then Some (AfterAtom, depth)
          else Some (InClass, depth)
      | InClassEscape \<Rightarrow> Some (InClass, depth)
      | AfterOpen \<Rightarrow>
          if c = CHR ''?'' then Some (AfterOpenQ, depth) else main_step AtStart depth c
      | AfterOpenQ \<Rightarrow> Some (AtStart, depth)
      | InBraces q k \<Rightarrow>
          if is_digit c then Some (InBraces q (if k = 0 then 1 else k), depth)
          else if c = CHR '','' \<and> k = 1 then Some (InBraces q 2, depth)
          else if c = CHR ''}'' \<and> 0 < k then (if q then Some (AfterQuantifier, depth) else None)
          else main_step AfterAtom depth c
      | _ \<Rightarrow> main_step st depth c)"

fun re_scan :: "re_state \<Rightarrow> nat \<Rightarrow> string \<Rightarrow> bool" where
  "re_scan st depth [] =
     (depth = 0 \<and> st \<noteq> InEscape \<and> st \<noteq> InClass \<and> st \<noteq> InClassEscape
      \<and> st \<noteq> AfterOpen \<and> st \<noteq> AfterOpenQ)"
| "re_scan st depth (c # cs) =
     (case re_step st depth c of
        None \<Rightarrow> False
      | Some (st', depth') \<Rightarrow> re_scan st' depth' cs)"

definition RegExp_new :: "string \<Rightarrow> js_error + string" where
  \<comment> \<open>the regular expression object is represented by its source\<close>
  "RegExp_new source = (if re_scan AtStart 0 source then Inr source else Inl SyntaxError)"

text \<open>
  Matching is the work of the JavaScript engine, a parameter here: from the source of a
  well-formed pattern, the \<open>i\<close> flag and the subject it gives the match array (the whole
  match, then the groups), or nothing.
\<close>

type_synonym regexp_engine = "string \<Rightarrow> bool \<Rightarrow> string \<Rightarrow> string list option"

definition match_group1 ::
  "regexp_engine \<Rightarrow> string \<Rightarrow> bool \<Rightarrow> string \<Rightarrow> js_error + string option"
where
  \<comment> \<open>\<open>m = subject.match(new RegExp(source, flags))\<close> followed by the test \<open>m && m[1]\<close>\<close>
  "match_group1 engine source ignoreCase subject =
     (case RegExp_new source of
        Inl err \<Rightarrow> Inl err
      | Inr re \<Rightarrow>
          Inr (case engine re ignoreCase subject of
                 Some (whole # group1 # groups) \<Rightarrow> if group1 \<noteq> [] then Some group1 else None
               | _ \<Rightarrow> None))"

subsection \<open>\<open>extractHashFromFile\<close> of the command line tool\<close>

definition escapeRegExp :: "string \<Rightarrow> string" where
  \<comment> \<open>a backslash before each of \<open>. * + ? ^ $ { } ( ) | [ ]\<close> and the backslash\<close>
  "escapeRegExp s =
     concat (map (\<lambda>c. if c \<in> set ''.*+?^${}()|[]'' \<or> c = backslash then [backslash, c] else [c])
                 s)"

text \<open>
  The three patterns are template literals. In a template literal the escapes \<open>\s\<close>,
  \<open>\*\<close>, \<open>\(\<close> and \<open>\)\<close> stand for the characters \<open>s\<close>, \<open>*\<close>, \<open>(\<close> and \<open>)\<close>, so the
  strings handed to \<open>new RegExp\<close> are the ones below.
\<close>

definition hashFirstRegex_source :: "string \<Rightarrow> string" where
  "hashFirstRegex_source filename =
     ''^([a-fA-F0-9]{32,128})s+(?:*|s)'' @ escapeRegExp filename @ ''$''"

definition filenameFirstRegex_source :: "string \<Rightarrow> string" where
  "filenameFirstRegex_source filename =
     escapeRegExp filename @ ''s*:s*([a-fA-F0-9]{32,128})''"

definition hashWithParensRegex_source :: "string \<Rightarrow> string" where
  "hashWithParensRegex_source filename =
     ''^([a-fA-F0-9]{32,128})s+('' @ escapeRegExp filename @ '')$''"

definition single_hash_only :: "string \<Rightarrow> string \<Rightarrow> string option" where
  \<comment> \<open>the last test of the loop body: \<open>/^[a-fA-F0-9]{32,128}$/\<close> and the length expected for
      the algorithm\<close>
  "single_hash_only trimmedLine hashAlgorithm =
     (if list_all is_hex trimmedLine \<and> 32 \<le> length trimmedLine \<and> length trimmedLine \<le> 128
      then (let expectedLength = (if hashAlgorithm = ''md5'' then 32
                                  else if hashAlgorithm = ''sha1'' then 40
                                  else 64 :: nat)
            in if length trimmedLine = expectedLength then Some (toLowerCase trimmedLine)
               else None)
      else None)"

fun extractHash_lines ::
  "regexp_engine \<Rightarrow> string \<Rightarrow> string \<Rightarrow> string list \<Rightarrow> js_error + string"
where
  \<comment> \<open>the loop over the lines; the empty string is "not found"\<close>
  "extractHash_lines engine filename hashAlgorithm [] = Inr []"
| "extractHash_lines engine filename hashAlgorithm (line # lines) =
     (if trim line = [] then extractHash_lines engine filename hashAlgorithm lines
      else (case match_group1 engine (hashFirstRegex_source filename) False (trim line) of
              Inl err \<Rightarrow> Inl err
            | Inr (Some hash) \<Rightarrow> Inr (toLowerCase hash)
            | Inr None \<Rightarrow>
          (case match_group1 engine (filenameFirstRegex_source filename) True (trim line) of
              Inl err \<Rightarrow> Inl err
            | Inr (Some hash) \<Rightarrow> Inr (toLowerCase hash)
            | Inr None \<Rightarrow>
          (case match_group1 engine (hashWithParensRegex_source filename) True (trim line) of
              Inl err \<Rightarrow> Inl err
            | Inr (Some hash) \<Rightarrow> Inr (toLowerCase hash)
            | Inr None \<Rightarrow>
          (case single_hash_only (trim line) hashAlgorithm of
              Some hash \<Rightarrow> Inr hash
            | None \<Rightarrow> extractHash_lines engine filename hashAlgorithm lines)))))"

definition extractHashFromFile ::
  "regexp_engine \<Rightarrow> string \<Rightarrow> string \<Rightarrow> string \<Rightarrow> js_error + string"
where
  "extractHashFromFile engine fileContent filename hashAlgorithm =
     (if trim fileContent = [] then Inr []
      else extractHash_lines engine filename hashAlgorithm (split_on CHR 0x0A fileContent))"

section \<open>Verified properties\<close>

subsection \<open>Version comparison\<close>

lemma js_lt_Num [simp]: "js_lt (Num a) (Num b) = (a < b)"
  by (simp add: Num_def scaled_def)

lemma js_gt_Num [simp]: "js_gt (Num a) (Num b) = (b < a)"
  by (simp add: js_gt_def)

lemma digit_not_space: "is_digit c \<Longrightarrow> \<not> is_space c"
  by (auto simp: is_digit_def is_space_def)

lemma trim_digits:
  assumes "list_all is_digit p"
  shows "trim p = p"
proof (cases p)
  case Nil
  then show ?thesis by (simp add: trim_def)
next
  case (Cons c cs)
  with assms have "\<not> is_space c" by (simp add: digit_not_space)
  then have front: "dropWhile is_space p = p" by (simp add: Cons)
  have nonempty: "rev p \<noteq> []" using Cons by simp
  then have "hd (rev p) \<in> set (rev p)" by (rule hd_in_set)
  then have "is_digit (hd (rev p))" using assms by (simp add: list_all_iff)
  with nonempty have "dropWhile is_space (rev p) = rev p"
    by (cases "rev p") (auto simp: digit_not_space)
  with front show ?thesis by (simp add: trim_def)
qed

lemma Number_js_digits:
  assumes "p \<noteq> []" and "list_all is_digit p" and "dec_value p \<le> 9007199254740992"
  shows "Number_js p = Num (dec_value p)"
proof -
  from assms(1) obtain c cs where p: "p = c # cs" by (cases p) auto
  with assms(2) have c: "is_digit c" by simp
  have t: "trim p = p" using assms(2) by (rule trim_digits)
  have no_radix: "radix_literal p = None"
  proof (cases cs)
    case Nil
    then show ?thesis by (simp add: radix_literal_def p)
  next
    case (Cons x ds)
    with assms(2) p have "is_digit x" by simp
    then have "x \<notin> set ''xXoObB''" by (auto simp: is_digit_def)
    then show ?thesis by (simp add: radix_literal_def p Cons)
  qed
  have no_sign: "hd p \<noteq> CHR ''-''" "hd p \<noteq> CHR ''+''"
    using c by (auto simp: p is_digit_def)
  have no_inf: "p \<noteq> ''Infinity''" using c by (auto simp: p is_digit_def)
  have tw: "takeWhile is_digit p = p" "dropWhile is_digit p = []"
    using assms(2) by (simp_all add: list_all_iff takeWhile_eq_all_conv dropWhile_eq_Nil_conv)
  have dec: "unsigned_decimal p = Some (dec_value p, 0)"
    using assms(1) by (simp add: unsigned_decimal_def tw exponent_part_def)
  have dbl: "decimal_to_double (dec_value p) 0 = Num (dec_value p)"
    using assms(3) by (simp add: decimal_to_double_def to_double_def Num_def)
  show ?thesis
    using assms(1) no_sign no_inf
    by (simp add: Number_js_def t no_radix dec dbl)
qed

lemma pad_zeros_length:
  "length xs \<le> n \<Longrightarrow> length (pad_zeros n xs) = n"
  by (simp add: pad_zeros_def)

lemma part_at_padded:
  assumes "i < n" and "length xs \<le> n"
  shows "part_at (map Num xs) i = Num (pad_zeros n xs ! i)"
  using assms by (auto simp: part_at_def pad_zeros_def nth_append)

lemma compareVersions_loop_componentwise:
  assumes "i \<le> max (length a) (length b)"
  shows "compareVersions_loop (map Num a) (map Num b) i
       = componentwise (drop i (pad_zeros (max (length a) (length b)) a))
                       (drop i (pad_zeros (max (length a) (length b)) b))"
  using assms
proof (induction "max (length a) (length b) - i" arbitrary: i)
  case 0
  then have "i = max (length a) (length b)" by arith
  then show ?case by (simp add: pad_zeros_def)
next
  case (Suc k)
  let ?n = "max (length a) (length b)"
  from Suc have lt: "i < ?n" by simp
  have la: "length (pad_zeros ?n a) = ?n" by (simp add: pad_zeros_length)
  have lb: "length (pad_zeros ?n b) = ?n" by (simp add: pad_zeros_length)
  have pa: "part_at (map Num a) i = Num (pad_zeros ?n a ! i)"
    using lt by (simp add: part_at_padded)
  have pb: "part_at (map Num b) i = Num (pad_zeros ?n b ! i)"
    using lt by (simp add: part_at_padded)
  have da: "drop i (pad_zeros ?n a) = pad_zeros ?n a ! i # drop (Suc i) (pad_zeros ?n a)"
    using lt la by (simp add: Cons_nth_drop_Suc)
  have db: "drop i (pad_zeros ?n b) = pad_zeros ?n b ! i # drop (Suc i) (pad_zeros ?n b)"
    using lt lb by (simp add: Cons_nth_drop_Suc)
  have step: "compareVersions_loop (map Num a) (map Num b) (i + 1)
       = componentwise (drop (i + 1) (pad_zeros ?n a)) (drop (i + 1) (pad_zeros ?n b))"
    using Suc.hyps(1)[of "i + 1"] Suc.hyps(2) lt by simp
  show ?case
    apply (subst compareVersions_loop.simps)
    using lt step by (simp add: pa pb da db del: compareVersions_loop.simps)
qed

lemma numbers_of_dotted_numeric:
  assumes "dotted_numeric v" and "exact_components v"
  shows "map Number_js (split_on CHR ''.'' v) = map Num (version_components v)"
  using assms
  by (auto simp: dotted_numeric_def exact_components_def version_components_def list_all_iff
        Number_js_digits)

lemma compareVersions_refines_spec:
  assumes "dotted_numeric v1" and "exact_components v1"
    and "dotted_numeric v2" and "exact_components v2"
  shows "compareVersions v1 v2 = spec_compareVersions v1 v2"
  unfolding compareVersions_def spec_compareVersions_def Let_def
    numbers_of_dotted_numeric[OF assms(1,2)] numbers_of_dotted_numeric[OF assms(3,4)]
  using compareVersions_loop_componentwise[of 0 "version_components v1" "version_components v2"]
  by simp

lemmas version_eval =
  dotted_numeric_def exact_components_def is_digit_def dec_value_def radix_value_def
  digit_val_def

text \<open>
  C6 (as amended). For dotted-numeric versions \<open>v1\<close> and \<open>v2\<close> whose components do not
  exceed \<open>2^53\<close>, \<open>compareVersions\<close> is the numeric comparison component by component
  with the shorter version extended by zeros; and
  \<open>compareVersions("22.04.3", "22.04") > 0\<close>, \<open>compareVersions("1.2", "1.2.0") = 0\<close>,
  \<open>compareVersions("2.0", "10.0") < 0\<close>.
\<close>

theorem compareVersions_numeric:
  assumes "dotted_numeric v1" and "exact_components v1"
    and "dotted_numeric v2" and "exact_components v2"
  shows "compareVersions v1 v2 = spec_compareVersions v1 v2
       \<and> 0 < compareVersions ''22.04.3'' ''22.04''
       \<and> compareVersions ''1.2'' ''1.2.0'' = 0
       \<and> compareVersions ''2.0'' ''10.0'' < 0"
proof -
  have general: "compareVersions v1 v2 = spec_compareVersions v1 v2"
    using assms by (rule compareVersions_refines_spec)
  have ok: "dotted_numeric ''22.04.3''" "exact_components ''22.04.3''"
    "dotted_numeric ''22.04''" "exact_components ''22.04''"
    "dotted_numeric ''1.2''" "exact_components ''1.2''"
    "dotted_numeric ''1.2.0''" "exact_components ''1.2.0''"
    "dotted_numeric ''2.0''" "exact_components ''2.0''"
    "dotted_numeric ''10.0''" "exact_components ''10.0''"
    by (simp_all add: version_eval)
  have s1: "spec_compareVersions ''22.04.3'' ''22.04'' = 1" by code_simp
  have s2: "spec_compareVersions ''1.2'' ''1.2.0'' = 0" by code_simp
  have s3: "spec_compareVersions ''2.0'' ''10.0'' = - 1" by code_simp
  have e1: "0 < compareVersions ''22.04.3'' ''22.04''"
    using compareVersions_refines_spec[OF ok(1-4)] s1 by simp
  have e2: "compareVersions ''1.2'' ''1.2.0'' = 0"
    using compareVersions_refines_spec[OF ok(5-8)] s2 by simp
  have e3: "compareVersions ''2.0'' ''10.0'' < 0"
    using compareVersions_refines_spec[OF ok(9-12)] s3 by simp
  from general e1 e2 e3 show ?thesis by simp
qed

theorem compareVersions_numeric_witness:
  "dotted_numeric ''2.0'' \<and> exact_components ''2.0''
   \<and> dotted_numeric ''10.0'' \<and> exact_components ''10.0''
   \<and> compareVersions ''2.0'' ''10.0'' = spec_compareVersions ''2.0'' ''10.0''
   \<and> spec_compareVersions ''2.0'' ''10.0'' = - 1"
proof -
  have d1: "dotted_numeric ''2.0''" and x1: "exact_components ''2.0''"
    and d2: "dotted_numeric ''10.0''" and x2: "exact_components ''10.0''"
    by (simp_all add: version_eval)
  have v: "spec_compareVersions ''2.0'' ''10.0'' = - 1" by code_simp
  from compareVersions_numeric[OF d1 x1 d2 x2] d1 x1 d2 x2 v show ?thesis by simp
qed

text \<open>
  C6 as stated fails: a component above \<open>2^53\<close> is rounded to a double before it is
  compared. \<open>9007199254740993\<close> and \<open>9007199254740992\<close> are both dotted-numeric, the first
  is the greater number, and \<open>compareVersions\<close> finds them equal.
\<close>

theorem compareVersions_rounds_large_components:
  "dotted_numeric ''9007199254740993'' \<and> dotted_numeric ''9007199254740992''
   \<and> spec_compareVersions ''9007199254740993'' ''9007199254740992'' = 1
   \<and> compareVersions ''9007199254740993'' ''9007199254740992'' = 0"
proof -
  have d: "dotted_numeric ''9007199254740993''" "dotted_numeric ''9007199254740992''"
    by (simp_all add: version_eval)
  have s: "spec_compareVersions ''9007199254740993'' ''9007199254740992'' = 1"
    by (simp add: spec_compareVersions_def version_components_def pad_zeros_def version_eval)
  have n1: "Number_js ''9007199254740993'' = Dbl 4503599627370496 1"
    by (simp add: Number_js_def trim_def is_space_def radix_literal_def unsigned_decimal_def
          exponent_part_def decimal_to_double_def to_double_def ilog2_def bits.simps
          round_half_even_def version_eval)
  have n2: "Number_js ''9007199254740992'' = Dbl 9007199254740992 0"
    by (simp add: Number_js_def trim_def is_space_def radix_literal_def unsigned_decimal_def
          exponent_part_def decimal_to_double_def to_double_def version_eval)
  have c: "compareVersions ''9007199254740993'' ''9007199254740992'' = 0"
    by (simp add: compareVersions_def n1 n2 part_at_def js_gt_def scaled_def)
  from d s c show ?thesis by simp
qed

subsection \<open>Downloads of the web server's downloader module\<close>



text \<open>
  A redirect to a relative \<open>Location\<close> is not followed: the next \<open>http.get\<close> throws, the
  promise is rejected and the empty destination file stays.
\<close>

lemma downloadAndVerifyFile_relative_redirect:
  "downloadAndVerifyFile (isPrefixOf ''http://'') crypto
     [Response 302 (Some ''/b.iso'') [] Finished, Response 200 None [''data''] Finished]
     Map.empty ''http://mirror/a.iso'' ''/archive/a.iso'' None ''sha256''
   = (Rejected (InvalidUrl ''/b.iso''), [''/archive/a.iso'' \<mapsto> []])"
  by (simp add: truthy_def string_of_def)

subsection \<open>Downloads of the command line tool\<close>

text \<open>
  C2. The claim asks that a failed transfer removes the partial destination file. In
  \<open>IsoManager.downloadAndVerifyFile\<close> it stays: the redirect probe is answered with 200,
  the download request delivers the chunk \<open>abc\<close> and then fails, the promise is rejected
  with the network error, and \<open>/downloads/a.iso\<close> still holds \<open>abc\<close>. The downloader module
  of the web server removes the file on the same answers.
\<close>

theorem IsoManager_download_keeps_partial_file:
  "IsoManager_downloadAndVerifyFile absolute_location ''/downloads''
     [Response 200 None [] Finished,
      Response 200 None [''abc''] (RequestError ''socket hang up'')]
     Map.empty ''http://mirror/a.iso''
   = (Rejected (NetworkError ''socket hang up''), [''/downloads/a.iso'' \<mapsto> ''abc''])
   \<and> downloadAndVerifyFile (isPrefixOf ''http://'') crypto
       [Response 200 None [''abc''] (RequestError ''socket hang up'')]
       Map.empty ''http://mirror/a.iso'' ''/downloads/a.iso'' None ''sha256''
     = (Rejected (NetworkError ''socket hang up''), Map.empty)"
  by (simp add: eval_nat_numeral last_segment_def path_join_def normalize_def isAbsolute_def
        is_slash_def truthy_def)

subsection \<open>Redirect chains\<close>

text \<open>
  C3. The claim asks that a chain longer than the hop limit fails with
  \<open>TooManyRedirects\<close>. On a chain of six redirects \<open>IsoManager.followRedirects\<close> with the
  default limit of five returns the URL reached after five hops, whose own answer is the
  sixth redirect, and raises nothing; \<open>fetchData\<close> rejects the same chain with
  \<open>Too many redirects\<close>.
\<close>

theorem followRedirects_returns_intermediate_url:
  "followRedirects absolute_location 5 ''http://mirror/0''
     [Response 301 (Some ''http://mirror/1'') [] Finished,
      Response 301 (Some ''http://mirror/2'') [] Finished,
      Response 301 (Some ''http://mirror/3'') [] Finished,
      Response 301 (Some ''http://mirror/4'') [] Finished,
      Response 301 (Some ''http://mirror/5'') [] Finished,
      Response 301 (Some ''http://mirror/6'') [] Finished,
      Response 200 None [''data''] Finished]
   = Some (''http://mirror/5'',
           [Response 301 (Some ''http://mirror/6'') [] Finished,
            Response 200 None [''data''] Finished])
   \<and> fetchData absolute_location 5 ''http://mirror/0''
       [Response 301 (Some ''http://mirror/1'') [] Finished,
        Response 301 (Some ''http://mirror/2'') [] Finished,
        Response 301 (Some ''http://mirror/3'') [] Finished,
        Response 301 (Some ''http://mirror/4'') [] Finished,
        Response 301 (Some ''http://mirror/5'') [] Finished,
        Response 301 (Some ''http://mirror/6'') [] Finished,
        Response 200 None [''data''] Finished]
     = Rejected TooManyRedirects"
  by (simp add: absolute_location_def eval_nat_numeral truthy_def)

subsection \<open>Verifying a file without an expected hash\<close>

text \<open>
  C10. For an existing file and an algorithm that \<open>crypto\<close> knows, \<open>verifyFile\<close> called
  with a missing or empty expected hash returns \<open>isValid = true\<close> together with the
  computed hash; called with the file's true hash it returns \<open>isValid = true\<close> as well, so
  that \<open>isValid\<close> alone does not tell the two apart.
\<close>

theorem verifyFile_without_expected_hash:
  assumes "fs filePath = Some bytes" and "\<not> truthy expectedHash"
    and "crypto (case algorithm of None \<Rightarrow> ''sha256'' | Some a \<Rightarrow> a) = Some digest"
  shows "verifyFile crypto fs filePath expectedHash algorithm
         = Inr \<lparr> v_filePath = filePath, v_hash = digest bytes, v_expectedHash = expectedHash,
                  v_algorithm = algorithm, v_isValid = True,
                  v_message = ''Hash verified successfully'' \<rparr>
       \<and> verifyFile crypto fs filePath (Some (digest bytes)) algorithm
         = Inr \<lparr> v_filePath = filePath, v_hash = digest bytes,
                  v_expectedHash = Some (digest bytes),
                  v_algorithm = algorithm, v_isValid = True,
                  v_message = ''Hash verified successfully'' \<rparr>"
  using assms by (simp add: verifyFile_def calculateFileHash_def string_of_def)

theorem verifyFile_without_expected_hash_witness:
  "[''/archive/a.iso'' \<mapsto> ''data''] ''/archive/a.iso'' = Some ''data''
   \<and> \<not> truthy (Some [])
   \<and> verifyFile (\<lambda>algorithm. if algorithm = ''sha256'' then Some (\<lambda>bytes. ''0a'') else None)
        [''/archive/a.iso'' \<mapsto> ''data''] ''/archive/a.iso'' (Some []) None
      = Inr \<lparr> v_filePath = ''/archive/a.iso'', v_hash = ''0a'', v_expectedHash = Some [],
               v_algorithm = None, v_isValid = True,
               v_message = ''Hash verified successfully'' \<rparr>"
  using verifyFile_without_expected_hash
    [where fs = "[''/archive/a.iso'' \<mapsto> ''data'']" and filePath = "''/archive/a.iso''"
       and bytes = "''data''" and expectedHash = "Some []" and algorithm = None
       and crypto = "\<lambda>algorithm. if algorithm = ''sha256'' then Some (\<lambda>bytes. ''0a'') else None"
       and digest = "\<lambda>bytes. ''0a''"]
  by (simp add: truthy_def)

subsection \<open>The archive catalog\<close>

lemma findIndex_Some:
  "findIndex P xs = Some k \<Longrightarrow> k < length xs \<and> P (xs ! k) \<and> List.find P xs = Some (xs ! k)"
proof (induction xs arbitrary: k)
  case Nil
  then show ?case by simp
next
  case (Cons x xs)
  then show ?case by (auto split: if_splits)
qed

lemma findIndex_None: "findIndex P xs = None \<longleftrightarrow> (\<forall>x\<in>set xs. \<not> P x)"
  by (induction xs) auto

lemma findIndex_None_find: "findIndex P xs = None \<Longrightarrow> List.find P xs = None"
  by (simp add: findIndex_None find_None_iff)

lemma only_record_with_key:
  assumes "distinct (map g xs)" and "k < length xs"
  shows "filter (\<lambda>x. g x = g (xs ! k)) xs = [xs ! k]"
  using assms
proof (induction xs arbitrary: k)
  case Nil
  then show ?case by simp
next
  case (Cons x xs)
  show ?case
  proof (cases k)
    case 0
    have "g x \<notin> g ` set xs" using Cons.prems(1) by simp
    then have "filter (\<lambda>y. g y = g x) xs = []"
      unfolding filter_empty_conv by (metis image_eqI)
    with 0 show ?thesis by simp
  next
    case (Suc j)
    with Cons.prems have j: "j < length xs" and d: "distinct (map g xs)" by simp_all
    have "g x \<noteq> g (xs ! j)" using Cons.prems(1) j by auto
    with Suc Cons.IH[OF d j] show ?thesis by simp
  qed
qed

lemma addIsoToJson_isoData:
  "addIsoToJson isos isoInfo f h s t =
     (case (case findIndex (\<lambda>item. rec_filename item = f) isos of
              Some i \<Rightarrow> Some i
            | None \<Rightarrow> findIndex (\<lambda>item. normalizeIsoName (rec_name item)
                                           = normalizeIsoName (iso_name isoInfo)) isos) of
        Some i \<Rightarrow> isos[i := isoData_of isoInfo f h s t]
      | None \<Rightarrow> isos @ [isoData_of isoInfo f h s t])"
  by (simp add: addIsoToJson_def isoData_of_def Let_def split: option.splits)

lemma rec_filename_isoData [simp]: "rec_filename (isoData_of isoInfo f h s t) = f"
  by (simp add: isoData_of_def)

lemma addIsoToJson_once:
  assumes d: "distinct (map rec_filename isos)"
  shows "distinct (map rec_filename (addIsoToJson isos isoInfo f h s t))"
    and "filter (\<lambda>r. rec_filename r = f) (addIsoToJson isos isoInfo f h s t)
         = [isoData_of isoInfo f h s t]"
    and "rec_filename r \<noteq> f \<Longrightarrow>
         r \<in> set (addIsoToJson isos isoInfo f h s t)
         \<longleftrightarrow> r \<in> set isos \<and> Some r \<noteq> overwritten_by_name isos isoInfo f"
    and "f \<in> rec_filename ` set (addIsoToJson isos isoInfo f h s t)"
proof -
  let ?d = "isoData_of isoInfo f h s t"
  let ?N = "\<lambda>item. normalizeIsoName (rec_name item) = normalizeIsoName (iso_name isoInfo)"
  let ?c = "addIsoToJson isos isoInfo f h s t"
  from d have di: "distinct isos" by (simp add: distinct_map)
  consider (byfile) k where "findIndex (\<lambda>item. rec_filename item = f) isos = Some k"
    | (byname) k where "findIndex (\<lambda>item. rec_filename item = f) isos = None"
        and "findIndex ?N isos = Some k"
    | (new) "findIndex (\<lambda>item. rec_filename item = f) isos = None" and "findIndex ?N isos = None"
    by (cases "findIndex (\<lambda>item. rec_filename item = f) isos"; cases "findIndex ?N isos") auto
  then have all: "distinct (map rec_filename ?c)
      \<and> filter (\<lambda>r. rec_filename r = f) ?c = [?d]
      \<and> (rec_filename r \<noteq> f \<longrightarrow>
           (r \<in> set ?c \<longleftrightarrow> r \<in> set isos \<and> Some r \<noteq> overwritten_by_name isos isoInfo f))
      \<and> f \<in> rec_filename ` set ?c"
  proof cases
    case byfile
    from findIndex_Some[OF byfile] have k: "k < length isos" and fk: "rec_filename (isos ! k) = f"
      by simp_all
    have c: "?c = isos[k := ?d]" by (simp add: addIsoToJson_isoData byfile)
    have names: "map rec_filename ?c = map rec_filename isos"
      using fk k by (simp add: c map_update list_update_same_conv)
    have dc: "distinct (map rec_filename ?c)" using d names by simp
    have ck: "?c ! k = ?d" and lk: "k < length ?c" using k by (simp_all add: c)
    have one: "filter (\<lambda>r. rec_filename r = f) ?c = [?d]"
      using only_record_with_key[OF dc lk] by (simp add: ck)
    have inarch: "f \<in> rec_filename ` set isos" using k fk by (metis imageI nth_mem)
    have mem: "rec_filename r \<noteq> f \<longrightarrow> (r \<in> set ?c \<longleftrightarrow> r \<in> set isos)"
      using fk by (auto simp: c set_update_distinct[OF di k])
    have "f \<in> rec_filename ` set ?c" using names inarch by (metis list.set_map)
    with dc one mem inarch show ?thesis by (simp add: overwritten_by_name_def)
  next
    case byname
    from findIndex_Some[OF byname(2)] have k: "k < length isos"
      and fnd: "List.find ?N isos = Some (isos ! k)" by simp_all
    from byname(1) have nof: "f \<notin> rec_filename ` set isos" by (auto simp: findIndex_None)
    have c: "?c = isos[k := ?d]" by (simp add: addIsoToJson_isoData byname)
    have dc: "distinct (map rec_filename ?c)"
      unfolding c map_update using d nof by (intro distinct_list_update) auto
    have ck: "?c ! k = ?d" and lk: "k < length ?c" using k by (simp_all add: c)
    have one: "filter (\<lambda>r. rec_filename r = f) ?c = [?d]"
      using only_record_with_key[OF dc lk] by (simp add: ck)
    have mem: "rec_filename r \<noteq> f \<longrightarrow> (r \<in> set ?c \<longleftrightarrow> r \<in> set isos \<and> r \<noteq> isos ! k)"
      by (auto simp: c set_update_distinct[OF di k]) (metis rec_filename_isoData)
    have "f \<in> rec_filename ` set ?c" using lk ck by (metis imageI nth_mem rec_filename_isoData)
    with dc one mem nof fnd show ?thesis by (auto simp: overwritten_by_name_def)
  next
    case new
    from new(1) have nof: "f \<notin> rec_filename ` set isos" by (auto simp: findIndex_None)
    have c: "?c = isos @ [?d]" by (simp add: addIsoToJson_isoData new)
    have fnd: "List.find ?N isos = None" using new(2) by (rule findIndex_None_find)
    have "filter (\<lambda>r. rec_filename r = f) isos = []" using nof by (auto simp: filter_empty_conv)
    then show ?thesis using d nof fnd by (auto simp: c overwritten_by_name_def)
  qed
  from all show "distinct (map rec_filename ?c)" by simp
  from all show "filter (\<lambda>r. rec_filename r = f) ?c = [?d]" by simp
  from all show "rec_filename r \<noteq> f \<Longrightarrow>
         r \<in> set ?c \<longleftrightarrow> r \<in> set isos \<and> Some r \<noteq> overwritten_by_name isos isoInfo f" by simp
  from all show "f \<in> rec_filename ` set ?c" by simp
qed

text \<open>
  C7 (as amended). On a catalog with at most one record per file name, after two calls of
  \<open>addIsoToJson\<close> with the same file name the catalog holds exactly one record with that
  file name, and it is the record built from the second call's arguments alone. A record
  with another file name is in the catalog afterwards exactly when it was there before and
  is not the record that the first call overwrote through the normalized-name match.
\<close>

theorem addIsoToJson_twice_same_filename:
  assumes "distinct (map rec_filename isos)"
  shows "filter (\<lambda>r. rec_filename r = f)
           (addIsoToJson (addIsoToJson isos iso1 f h1 s1 t1) iso2 f h2 s2 t2)
         = [isoData_of iso2 f h2 s2 t2]
       \<and> (\<forall>r. rec_filename r \<noteq> f \<longrightarrow>
            (r \<in> set (addIsoToJson (addIsoToJson isos iso1 f h1 s1 t1) iso2 f h2 s2 t2)
             \<longleftrightarrow> r \<in> set isos \<and> Some r \<noteq> overwritten_by_name isos iso1 f))"
proof -
  let ?c1 = "addIsoToJson isos iso1 f h1 s1 t1"
  have d1: "distinct (map rec_filename ?c1)" using assms by (rule addIsoToJson_once(1))
  have in1: "f \<in> rec_filename ` set ?c1" using assms by (rule addIsoToJson_once(4))
  have none: "overwritten_by_name ?c1 iso2 f = None" using in1 by (simp add: overwritten_by_name_def)
  have a: "filter (\<lambda>r. rec_filename r = f) (addIsoToJson ?c1 iso2 f h2 s2 t2)
           = [isoData_of iso2 f h2 s2 t2]" using d1 by (rule addIsoToJson_once(2))
  have b: "r \<in> set (addIsoToJson ?c1 iso2 f h2 s2 t2)
           \<longleftrightarrow> r \<in> set isos \<and> Some r \<noteq> overwritten_by_name isos iso1 f"
    if "rec_filename r \<noteq> f" for r
    using addIsoToJson_once(3)[OF d1 that, of iso2 h2 s2 t2]
          addIsoToJson_once(3)[OF assms that, of iso1 h1 s1 t1] none by simp
  from a b show ?thesis by blast
qed

theorem addIsoToJson_twice_same_filename_witness:
  "distinct (map rec_filename
     [\<lparr> rec_name = ''Ubuntu 22.04'', rec_filename = ''ubuntu-22.04.iso'',
        rec_version = Some ''22.04'', rec_hash = ''aa'', rec_size = 10,
        rec_addedDate = ''2024-01-01'' \<rparr>,
      \<lparr> rec_name = ''Debian'', rec_filename = ''debian-12.iso'',
        rec_version = None, rec_hash = ''dd'', rec_size = 40,
        rec_addedDate = ''2024-01-02'' \<rparr>])
   \<and> filter (\<lambda>r. rec_filename r = ''ubuntu-22.04.3.iso'')
       (addIsoToJson
          (addIsoToJson
             [\<lparr> rec_name = ''Ubuntu 22.04'', rec_filename = ''ubuntu-22.04.iso'',
                rec_version = Some ''22.04'', rec_hash = ''aa'', rec_size = 10,
                rec_addedDate = ''2024-01-01'' \<rparr>,
              \<lparr> rec_name = ''Debian'', rec_filename = ''debian-12.iso'',
                rec_version = None, rec_hash = ''dd'', rec_size = 40,
                rec_addedDate = ''2024-01-02'' \<rparr>]
             \<lparr> iso_name = ''Ubuntu 22.04.3'', iso_version = None \<rparr>
             ''ubuntu-22.04.3.iso'' (Some ''bb'') 20 ''2024-02-01'')
          \<lparr> iso_name = ''Ubuntu 22.04.3'', iso_version = Some ''22.04.3'' \<rparr>
          ''ubuntu-22.04.3.iso'' (Some ''cc'') 30 ''2024-02-02'')
     = [\<lparr> rec_name = ''Ubuntu 22.04.3'', rec_filename = ''ubuntu-22.04.3.iso'',
          rec_version = Some ''22.04.3'', rec_hash = ''cc'', rec_size = 30,
          rec_addedDate = ''2024-02-02'' \<rparr>]"
  using addIsoToJson_twice_same_filename
    [where isos = "[\<lparr> rec_name = ''Ubuntu 22.04'', rec_filename = ''ubuntu-22.04.iso'',
                      rec_version = Some ''22.04'', rec_hash = ''aa'', rec_size = 10,
                      rec_addedDate = ''2024-01-01'' \<rparr>,
                    \<lparr> rec_name = ''Debian'', rec_filename = ''debian-12.iso'',
                      rec_version = None, rec_hash = ''dd'', rec_size = 40,
                      rec_addedDate = ''2024-01-02'' \<rparr>]"
       and f = "''ubuntu-22.04.3.iso''"
       and ?iso1.0 = "\<lparr> iso_name = ''Ubuntu 22.04.3'', iso_version = None \<rparr>"
       and ?h1.0 = "Some ''bb''" and ?s1.0 = 20 and ?t1.0 = "''2024-02-01''"
       and ?iso2.0 = "\<lparr> iso_name = ''Ubuntu 22.04.3'', iso_version = Some ''22.04.3'' \<rparr>"
       and ?h2.0 = "Some ''cc''" and ?s2.0 = 30 and ?t2.0 = "''2024-02-02''"]
  by (simp add: isoData_of_def or_else_def truthy_def string_of_def)

text \<open>
  C7 as stated fails: the catalog holds one record, for \<open>ubuntu-22.04.iso\<close>; two calls add
  \<open>ubuntu-22.04.3.iso\<close> under a name with the same normalized form. The record of the other
  file name is gone afterwards.
\<close>

theorem addIsoToJson_overwrites_other_filename:
  "rec_filename \<lparr> rec_name = ''Ubuntu 22.04'', rec_filename = ''ubuntu-22.04.iso'',
                  rec_version = Some ''22.04'', rec_hash = ''aa'', rec_size = 10,
                  rec_addedDate = ''2024-01-01'' \<rparr> \<noteq> ''ubuntu-22.04.3.iso''
   \<and> addIsoToJson
       (addIsoToJson
          [\<lparr> rec_name = ''Ubuntu 22.04'', rec_filename = ''ubuntu-22.04.iso'',
             rec_version = Some ''22.04'', rec_hash = ''aa'', rec_size = 10,
             rec_addedDate = ''2024-01-01'' \<rparr>]
          \<lparr> iso_name = ''Ubuntu 22.04.3'', iso_version = None \<rparr>
          ''ubuntu-22.04.3.iso'' (Some ''bb'') 20 ''2024-02-01'')
       \<lparr> iso_name = ''Ubuntu 22.04.3'', iso_version = None \<rparr>
       ''ubuntu-22.04.3.iso'' (Some ''cc'') 30 ''2024-02-02''
     = [\<lparr> rec_name = ''Ubuntu 22.04.3'', rec_filename = ''ubuntu-22.04.3.iso'',
          rec_version = Some ''22.04.3'', rec_hash = ''cc'', rec_size = 30,
          rec_addedDate = ''2024-02-02'' \<rparr>]"
proof -
  have n1: "normalizeIsoName ''Ubuntu 22.04'' = ''ubuntu''" by code_simp
  have n2: "normalizeIsoName ''Ubuntu 22.04.3'' = ''ubuntu''" by code_simp
  have v: "extractVersionFromFilename ''ubuntu-22.04.3.iso'' = Some ''22.04.3''" by code_simp
  have first:
    "addIsoToJson
       [\<lparr> rec_name = ''Ubuntu 22.04'', rec_filename = ''ubuntu-22.04.iso'',
          rec_version = Some ''22.04'', rec_hash = ''aa'', rec_size = 10,
          rec_addedDate = ''2024-01-01'' \<rparr>]
       \<lparr> iso_name = ''Ubuntu 22.04.3'', iso_version = None \<rparr>
       ''ubuntu-22.04.3.iso'' (Some ''bb'') 20 ''2024-02-01''
     = [\<lparr> rec_name = ''Ubuntu 22.04.3'', rec_filename = ''ubuntu-22.04.3.iso'',
          rec_version = Some ''22.04.3'', rec_hash = ''bb'', rec_size = 20,
          rec_addedDate = ''2024-02-01'' \<rparr>]"
    by (simp add: addIsoToJson_def n1 n2 v or_else_def truthy_def string_of_def
          del: extractVersionFromFilename.simps)
  show ?thesis
    unfolding first
    by (simp add: addIsoToJson_def n2 v or_else_def truthy_def string_of_def
          del: extractVersionFromFilename.simps)
qed

subsection \<open>Update detection\<close>






subsection \<open>Deleting from the archive\<close>






subsection \<open>Hash extraction of the command line tool\<close>

lemma hashFirstRegex_is_rejected: "RegExp_new (hashFirstRegex_source filename) = Inl SyntaxError"
  by (simp add: RegExp_new_def hashFirstRegex_source_def re_step_def main_step_def
        is_digit_def backslash_def)

lemma trim_empty_iff: "trim s = [] \<longleftrightarrow> (\<forall>c\<in>set s. is_space c)"
proof
  assume "trim s = []"
  then have "\<forall>c\<in>set (dropWhile is_space s). is_space c"
    by (simp add: trim_def dropWhile_eq_Nil_conv)
  then have "dropWhile is_space s = []"
    using hd_dropWhile[of is_space s] by (cases "dropWhile is_space s") auto
  then show "\<forall>c\<in>set s. is_space c" by (simp add: dropWhile_eq_Nil_conv)
next
  assume "\<forall>c\<in>set s. is_space c"
  then have d: "dropWhile is_space s = []" by (simp add: dropWhile_eq_Nil_conv)
  show "trim s = []" unfolding trim_def d by simp
qed

lemma split_on_covers:
  assumes "c \<in> set s" and "c \<noteq> sep"
  shows "\<exists>piece\<in>set (split_on sep s). c \<in> set piece"
  using assms
proof (induction s)
  case Nil
  then show ?case by simp
next
  case (Cons x xs)
  show ?case
  proof (cases "c = x")
    case True
    with Cons.prems show ?thesis by (auto split: list.splits)
  next
    case False
    with Cons.prems have "c \<in> set xs" by simp
    from Cons.IH[OF this Cons.prems(2)] show ?thesis
      by (auto split: list.splits)
  qed
qed

lemma extractHash_lines_throws:
  assumes "\<exists>line\<in>set lines. trim line \<noteq> []"
  shows "extractHash_lines engine filename hashAlgorithm lines = Inl SyntaxError"
  using assms
proof (induction lines)
  case Nil
  then show ?case by simp
next
  case (Cons line lines)
  show ?case
  proof (cases "trim line = []")
    case True
    with Cons.prems have "\<exists>l\<in>set lines. trim l \<noteq> []" by auto
    with True Cons.IH show ?thesis by simp
  next
    case False
    then show ?thesis by (simp add: match_group1_def hashFirstRegex_is_rejected)
  qed
qed

lemma extractHashFromFile_throws:
  assumes "trim fileContent \<noteq> []"
  shows "extractHashFromFile engine fileContent filename hashAlgorithm = Inl SyntaxError"
proof -
  from assms obtain c where c: "c \<in> set fileContent" "\<not> is_space c"
    by (auto simp: trim_empty_iff)
  then have "c \<noteq> CHR 0x0A" by (auto simp: is_space_def)
  from split_on_covers[OF c(1) this] obtain line
    where "line \<in> set (split_on CHR 0x0A fileContent)" and "c \<in> set line" by blast
  with c(2) have "\<exists>line\<in>set (split_on CHR 0x0A fileContent). trim line \<noteq> []"
    by (auto simp: trim_empty_iff)
  then show ?thesis using assms by (simp add: extractHashFromFile_def extractHash_lines_throws)
qed

text \<open>
  C4. The claim asks that a line \<open><hash>  <filename>\<close> yields the hash in lower case and
  that unrelated content yields "not found" without throwing. \<open>extractHashFromFile\<close> of the
  command line tool throws on both: the first pattern it builds reaches \<open>new RegExp\<close> as
  \<open>^([a-fA-F0-9]{32,128})s+(?:*|s)...\<close>, a quantifier with nothing to repeat, whatever the
  regular expression engine would do with a well-formed pattern.
\<close>

theorem extractHashFromFile_throws_on_checksum_line:
  "extractHashFromFile engine
     (''DEADBEEFdeadbeefdeadbeefdeadbeefdeadbeefdeadbeefdeadbeefdeadbeef''
        @ ''  ubuntu-22.04.iso'')
     ''ubuntu-22.04.iso'' ''sha256''
   = Inl SyntaxError
   \<and> extractHashFromFile engine ''no checksum here'' ''ubuntu-22.04.iso'' ''sha256''
     = Inl SyntaxError"
proof -
  have a: "trim (''DEADBEEFdeadbeefdeadbeefdeadbeefdeadbeefdeadbeefdeadbeefdeadbeef''
                  @ ''  ubuntu-22.04.iso'') \<noteq> []"
    by (simp add: trim_empty_iff is_space_def)
  have b: "trim ''no checksum here'' \<noteq> []"
    by (simp add: trim_empty_iff is_space_def)
  from extractHashFromFile_throws[OF a] extractHashFromFile_throws[OF b]
  show ?thesis by simp
qed

text \<open>
  C5. The claim asks that a file holding one hex string is accepted exactly at the length
  of the algorithm, 128 for sha512. In the command line tool the length test knows 32 for
  md5 and 40 for sha1 and takes 64 for every other algorithm: a sha512 digest of 128
  characters fails it and a string of 64 characters passes it under sha512; and the call
  as a whole throws before it reaches the test.
\<close>

theorem single_hash_only_sha512_length:
  "single_hash_only (replicate 128 CHR ''a'') ''sha512'' = None
   \<and> single_hash_only (replicate 64 CHR ''a'') ''sha512'' = Some (replicate 64 CHR ''a'')
   \<and> extractHashFromFile engine (replicate 128 CHR ''a'') ''sums.txt'' ''sha512''
     = Inl SyntaxError"
proof -
  have l: "toLowerCase (replicate 64 CHR ''a'') = replicate 64 CHR ''a''"
    by (simp add: toLowerCase_def lower_char_def)
  have h: "list_all is_hex (replicate n CHR ''a'')" for n
    by (simp add: list_all_iff is_hex_def)
  have t: "trim (replicate 128 CHR ''a'') \<noteq> []"
    by (simp add: trim_empty_iff is_space_def)
  show ?thesis
    using extractHashFromFile_throws[OF t] by (simp add: single_hash_only_def h l)
qed

subsection \<open>The sibling paths\<close>

text \<open>
  The downloader module of the web server leaves no destination file behind a rejection,
  apart from the two that are raised while the promise is set up, before any request: an
  unknown digest algorithm and a URL that \<open>http.get\<close> does not accept. They leave the file
  just created.
\<close>

lemma downloadAndVerifyFile_rejection_removes_file:
  assumes "downloadAndVerifyFile http_get_accepts crypto script fs url outputPath expectedHash
             hashAlgorithm = (Rejected err, fs')"
    and "err \<noteq> DigestError" and "\<forall>u. err \<noteq> InvalidUrl u"
  shows "fs' outputPath = None"
  using assms(1)
proof (induction script arbitrary: fs url)
  case Nil
  with assms(2,3) show ?case by (auto split: if_splits)
next
  case (Cons answer script)
  show ?case
  proof (cases "(truthy expectedHash \<and> crypto hashAlgorithm = None) \<or> \<not> http_get_accepts url")
    case True
    with Cons.prems assms(2,3) show ?thesis by (auto split: if_splits)
  next
    case setup_ok: False
    show ?thesis
    proof (cases answer)
      case (NoResponse e)
      with Cons.prems setup_ok show ?thesis by auto
    next
      case (Response status location chunks ending)
      show ?thesis
      proof (cases "300 \<le> status \<and> status < 400 \<and> truthy location")
        case True
        with Cons.prems Response setup_ok
        have "downloadAndVerifyFile http_get_accepts crypto script (fs(outputPath \<mapsto> []))
                (string_of location) outputPath expectedHash hashAlgorithm = (Rejected err, fs')"
          by auto
        from Cons.IH[OF this] show ?thesis .
      next
        case False
        with Cons.prems Response setup_ok show ?thesis
          by (auto simp: Let_def split: if_splits transfer_end.splits option.splits)
      qed
    qed
  qed
qed

text \<open>\<open>fetchData\<close> rejects every chain of redirects longer than its limit.\<close>

lemma fetchData_too_many_redirects:
  assumes "list_all is_redirect redirects" and "maxRedirects < length redirects"
  shows "fetchData resolveUrl maxRedirects url (redirects @ later) = Rejected TooManyRedirects"
  using assms
proof (induction redirects arbitrary: maxRedirects url)
  case Nil
  then show ?case by simp
next
  case (Cons a redirects)
  from Cons.prems(1) obtain status loc cs e where a: "a = Response status loc cs e"
    and r: "300 \<le> status" "status < 400" "truthy loc"
    by (cases a) (auto simp: is_redirect_def)
  show ?case
  proof (cases maxRedirects)
    case 0
    with r show ?thesis by (simp add: a)
  next
    case (Suc n)
    with Cons.prems have "list_all is_redirect redirects" and "n < length redirects" by simp_all
    from Cons.IH[OF this] Suc r show ?thesis by (simp add: a)
  qed
qed

text \<open>
  \<open>updateIsosJson\<close> of the command line tool replaces by file name alone; it writes nothing
  when the catalog document does not exist.
\<close>

lemma updateIsosJson_twice:
  assumes "rec_filename m1 = rec_filename m2"
  shows "updateIsosJson (updateIsosJson (Some isos) m1 False) m2 False
         = Some (filter (\<lambda>i. rec_filename i \<noteq> rec_filename m2) isos @ [m2])"
    and "updateIsosJson None m1 False = None"
  using assms by (simp_all add: updateIsosJson_def)

text \<open>
  \<open>deleteArchiveIso\<close> of the command line tool joins the file name as given and tests the
  prefix without a separator: \<open>../../etc/passwd\<close> is refused, a file in a sibling directory
  whose name starts like the archive directory is deleted.
\<close>

lemma deleteArchiveIso_prefix_without_separator:
  "deleteArchiveIso ''/srv/ISO-Archive'' ''../../etc/passwd'' st = Inl OutsideArchive"
  "deleteArchiveIso ''/srv/ISO-Archive'' ''../ISO-Archive-old/a.iso''
     \<lparr> st_fs = [''/srv/ISO-Archive-old/a.iso'' \<mapsto> File ''x''], st_isos = None \<rparr>
   = Inr \<lparr> st_fs = Map.empty, st_isos = None \<rparr>"
proof -
  have j1: "path_join [''/srv/ISO-Archive'', ''../../etc/passwd''] = ''/etc/passwd''"
    by code_simp
  have j2: "path_join [''/srv/ISO-Archive'', ''../ISO-Archive-old/a.iso'']
            = ''/srv/ISO-Archive-old/a.iso''" by code_simp
  have j3: "path_join [''/srv/ISO-Archive'', ''isos.json''] = ''/srv/ISO-Archive/isos.json''"
    by code_simp
  show "deleteArchiveIso ''/srv/ISO-Archive'' ''../../etc/passwd'' st = Inl OutsideArchive"
    by (simp add: deleteArchiveIso_def j1)
  show "deleteArchiveIso ''/srv/ISO-Archive'' ''../ISO-Archive-old/a.iso''
     \<lparr> st_fs = [''/srv/ISO-Archive-old/a.iso'' \<mapsto> File ''x''], st_isos = None \<rparr>
   = Inr \<lparr> st_fs = Map.empty, st_isos = None \<rparr>"
    by (simp add: deleteArchiveIso_def j2 j3)
qed

end
